theory Spec2Isabelle
  imports Complex_Main "HOL-Library.Sublist"
begin

section \<open>Values of the host language\<close>

text \<open>
  The backend is JavaScript. A number is modelled as an exact rational: the values that JSON
  text denotes. Rounding to binary64 and the non-finite numbers are outside the model; the one
  place where the code tests for NaN is modelled with \<open>None\<close>. A string is a list of 8-bit
  characters. A decoded JSON document is a value of \<open>json\<close>; an object keeps its members in
  insertion order with distinct keys.
\<close>

datatype json =
    JNull
  | JBool bool
  | JNum rat
  | JStr string
  | JArr "json list"
  | JObj "(string \<times> json) list"

text \<open>
  The safe integers of the host (\<open>Number.isSafeInteger\<close>): the integers from \<open>-(2^53 - 1)\<close> to
  \<open>2^53 - 1\<close>. binary64 holds each of them, and it computes a sum, a difference or a product
  of two of them without rounding when the exact result is a safe integer again. On them the
  arithmetic of the model is the arithmetic of the host.
\<close>

definition isSafeInteger :: "rat \<Rightarrow> bool" where
  "isSafeInteger r \<longleftrightarrow> of_int \<lfloor>r\<rfloor> = r \<and> \<bar>r\<bar> \<le> 9007199254740991"

text \<open>The exceptions that the modelled code can raise.\<close>

datatype error = TypeError | SyntaxError

text \<open>
  Two conversions of the host are parameters of the model, since their results depend on the
  binary64 representation: \<open>num_str\<close> is Number-to-String, \<open>str_num\<close> is String-to-Number
  with \<open>None\<close> for NaN. Every theorem below holds for every choice of them.
\<close>

record host =
  num_str :: "rat \<Rightarrow> string"
  str_num :: "string \<Rightarrow> rat option"

definition thenE :: "'e + 'a \<Rightarrow> ('a \<Rightarrow> 'e + 'b) \<Rightarrow> 'e + 'b" where
  "thenE r f = (case r of Inl e \<Rightarrow> Inl e | Inr x \<Rightarrow> f x)"

fun mapE :: "('a \<Rightarrow> 'e + 'b) \<Rightarrow> 'a list \<Rightarrow> 'e + 'b list" where
  "mapE f [] = Inr []"
| "mapE f (x # xs) = thenE (f x) (\<lambda>y. thenE (mapE f xs) (\<lambda>ys. Inr (y # ys)))"

fun filterE :: "('a \<Rightarrow> 'e + bool) \<Rightarrow> 'a list \<Rightarrow> 'e + 'a list" where
  "filterE p [] = Inr []"
| "filterE p (x # xs) =
     thenE (p x) (\<lambda>b. thenE (filterE p xs) (\<lambda>ys. Inr (if b then x # ys else ys)))"

subsection \<open>Strings\<close>

text \<open>White space of the host (what \<open>trim\<close> strips and \<open>\s\<close> matches), in the 8-bit range.\<close>

definition is_space :: "char \<Rightarrow> bool" where
  "is_space c \<longleftrightarrow> c \<in> set [CHR 0x09, CHR 0x0A, CHR 0x0B, CHR 0x0C, CHR 0x0D, CHR 0x20, CHR 0xA0]"

definition is_digit :: "char \<Rightarrow> bool" where
  "is_digit c \<longleftrightarrow> c \<in> set ''0123456789''"

definition trim :: "string \<Rightarrow> string" where
  "trim s = rev (dropWhile is_space (rev (dropWhile is_space s)))"

fun join :: "string \<Rightarrow> string list \<Rightarrow> string" where
  "join sep [] = []"
| "join sep [x] = x"
| "join sep (x # y # ys) = x @ sep @ join sep (y # ys)"

text \<open>\<open>toLowerCase\<close> on 8-bit characters: A-Z, and the Latin-1 capitals except the
  multiplication sign.\<close>

definition lower_char :: "char \<Rightarrow> char" where
  "lower_char c =
     (let n = (of_char c :: nat) in
      if (65 \<le> n \<and> n \<le> 90) \<or> (192 \<le> n \<and> n \<le> 222 \<and> n \<noteq> 215) then char_of (n + 32) else c)"

definition toLowerCase :: "string \<Rightarrow> string" where
  "toLowerCase s = map lower_char s"

subsection \<open>Objects\<close>

text \<open>
  \<open>o[k] = v\<close> on a plain object whose values are primitive: an existing key keeps its place,
  a new key is appended, and the key \<open>__proto__\<close> reaches the prototype setter, which ignores
  a primitive value.
\<close>

fun obj_put :: "string \<Rightarrow> 'v \<Rightarrow> (string \<times> 'v) list \<Rightarrow> (string \<times> 'v) list" where
  "obj_put k v [] = [(k, v)]"
| "obj_put k v ((k', v') # ms) = (if k' = k then (k, v) # ms else (k', v') # obj_put k v ms)"

definition obj_assign :: "string \<Rightarrow> 'v \<Rightarrow> (string \<times> 'v) list \<Rightarrow> (string \<times> 'v) list" where
  "obj_assign k v ms = (if k = ''__proto__'' then ms else obj_put k v ms)"

text \<open>Digits and their values.\<close>

definition hex_val :: "char \<Rightarrow> nat option" where
  "hex_val c = map_of (zip ''0123456789abcdefABCDEF''
                         [0, 1, 2, 3, 4, 5, 6, 7, 8, 9, 10, 11, 12, 13, 14, 15, 10, 11, 12, 13, 14, 15]) c"

definition digit_val :: "char \<Rightarrow> int" where
  "digit_val c = (case hex_val c of Some n \<Rightarrow> int n | None \<Rightarrow> 0)"

definition dec_val :: "string \<Rightarrow> int" where
  "dec_val ds = foldl (\<lambda>n c. 10 * n + digit_val c) 0 ds"

text \<open>
  The order in which the host enumerates the members of an object: the keys that are array
  indices in ascending order, then the other keys in insertion order.
\<close>

definition array_index :: "string \<Rightarrow> int option" where
  "array_index k =
     (if k \<noteq> [] \<and> list_all is_digit k \<and> (if prefix ''0'' k then k = ''0'' else True)
         \<and> dec_val k < 4294967295
      then Some (dec_val k) else None)"

definition own_entries :: "(string \<times> 'v) list \<Rightarrow> (string \<times> 'v) list" where
  "own_entries ms =
     sort_key (\<lambda>(k, v). dec_val k) (filter (\<lambda>(k, v). array_index k \<noteq> None) ms)
     @ filter (\<lambda>(k, v). array_index k = None) ms"

text \<open>
  Reading a property whose name is on no prototype (all names the code reads are such):
  \<open>null\<close> raises, an object gives its own member or \<open>undefined\<close> (\<open>None\<close>), every other
  value gives \<open>undefined\<close>.
\<close>

fun get_prop :: "json \<Rightarrow> string \<Rightarrow> error + json option" where
  "get_prop JNull k = Inl TypeError"
| "get_prop (JObj ms) k = Inr (map_of ms k)"
| "get_prop _ k = Inr None"

fun truthy :: "json \<Rightarrow> bool" where
  "truthy JNull = False"
| "truthy (JBool b) = b"
| "truthy (JNum r) = (r \<noteq> 0)"
| "truthy (JStr s) = (s \<noteq> [])"
| "truthy (JArr xs) = True"
| "truthy (JObj ms) = True"

text \<open>A possibly undefined value is truthy when it is defined and truthy.\<close>

fun truthy_opt :: "json option \<Rightarrow> bool" where
  "truthy_opt None = False"
| "truthy_opt (Some v) = truthy v"

text \<open>
  \<open>String(v)\<close>, also what a template literal does. An object decoded from JSON has only data
  members, so an own member \<open>toString\<close> is not callable and the conversion raises; otherwise
  the inherited method answers. An array joins its elements with commas, \<open>null\<close> as the empty
  string.
\<close>

fun js_String :: "host \<Rightarrow> json \<Rightarrow> error + string"
  and js_String_elems :: "host \<Rightarrow> json list \<Rightarrow> error + string list" where
  "js_String H JNull = Inr ''null''"
| "js_String H (JBool b) = Inr (if b then ''true'' else ''false'')"
| "js_String H (JNum r) = Inr (num_str H r)"
| "js_String H (JStr s) = Inr s"
| "js_String H (JArr xs) = thenE (js_String_elems H xs) (\<lambda>ss. Inr (join '','' ss))"
| "js_String H (JObj ms) =
     (if ''toString'' \<in> set (map fst ms) then Inl TypeError else Inr ''[object Object]'')"
| "js_String_elems H [] = Inr []"
| "js_String_elems H (x # xs) =
     thenE (if x = JNull then Inr [] else js_String H x)
       (\<lambda>s. thenE (js_String_elems H xs) (\<lambda>ss. Inr (s # ss)))"

text \<open>
  \<open>Number(v)\<close>, \<open>None\<close> for NaN. An object converts through \<open>valueOf\<close> (which gives the
  object back) and then \<open>toString\<close>; the text \<open>[object Object]\<close> is not numeric.
\<close>

fun js_Number :: "host \<Rightarrow> json option \<Rightarrow> error + rat option" where
  "js_Number H None = Inr None"
| "js_Number H (Some JNull) = Inr (Some 0)"
| "js_Number H (Some (JBool b)) = Inr (Some (if b then 1 else 0))"
| "js_Number H (Some (JNum r)) = Inr (Some r)"
| "js_Number H (Some (JStr s)) = Inr (str_num H s)"
| "js_Number H (Some (JArr xs)) = thenE (js_String H (JArr xs)) (\<lambda>s. Inr (str_num H s))"
| "js_Number H (Some (JObj ms)) =
     (if ''toString'' \<in> set (map fst ms) then Inl TypeError else Inr None)"

section \<open>The game state\<close>

datatype quest =
    QuestText string
  | QuestObj (q_title: string) (q_description: string) (q_objectives: "json list")

datatype relval = RelNum rat | RelText string

record location =
  loc_id :: string
  loc_name :: string
  loc_description :: string

record status_effect =
  se_name :: string
  se_description :: string
  se_duration :: rat
  se_effect :: json

datatype entry_type = Action | Narrative | System

record history_entry =
  e_type :: entry_type
  e_text :: string

record last_action =
  la_text :: string
  la_timestamp :: string

record player =
  p_name :: string
  health :: rat
  inventory :: "string list"
  quests :: "quest list"
  experience :: rat
  level :: rat
  skills :: json
  statusEffects :: "status_effect list"

record world =
  w_name :: string
  w_type :: string
  w_description :: string

record npc =
  npc_id :: string
  npc_name :: string
  npc_description :: string
  npc_relationship :: rat

record environment =
  env_time :: string
  env_weather :: string
  env_season :: string

record game_state =
  player :: player
  world :: world
  currentLocation :: location
  gameHistory :: "history_entry list"
  discoveredLocations :: "string list"
  npcRelationships :: "(string \<times> relval) list"
  timeElapsed :: rat
  lastAction :: "last_action option"
  gameOver :: bool
  created :: string
  potentialPlotHooks :: "string list"
  nearbyLocations :: "location list"
  availableNpcs :: "npc list"
  environment :: environment

text \<open>
  The validated change set that \<open>validateStateChanges\<close> builds: every field is optional, and a
  present field has the shape the validator gave it.
\<close>

record changes =
  ch_health :: "rat option"
  ch_addItems :: "string list option"
  ch_removeItems :: "string list option"
  ch_newLocation :: "location option"
  ch_addQuests :: "quest list option"
  ch_npcRelationships :: "(string \<times> relval) list option"
  ch_experience :: "rat option"
  ch_statusEffects :: "status_effect list option"

definition no_changes :: changes where
  "no_changes = \<lparr>ch_health = None, ch_addItems = None, ch_removeItems = None,
     ch_newLocation = None, ch_addQuests = None, ch_npcRelationships = None,
     ch_experience = None, ch_statusEffects = None\<rparr>"

section \<open>The state reducer (gameController.js, updateGameState)\<close>

definition push_history :: "entry_type \<Rightarrow> string \<Rightarrow> game_state \<Rightarrow> game_state" where
  "push_history t txt s = s\<lparr>gameHistory := gameHistory s @ [\<lparr>e_type = t, e_text = txt\<rparr>]\<rparr>"

definition record_action :: "string \<Rightarrow> string \<Rightarrow> string \<Rightarrow> game_state \<Rightarrow> game_state" where
  "record_action now action narrative s =
     (push_history Narrative narrative (push_history Action action s))
       \<lparr>lastAction := Some \<lparr>la_text = action, la_timestamp = now\<rparr>\<rparr>"

definition apply_health :: "rat option \<Rightarrow> game_state \<Rightarrow> game_state" where
  "apply_health h s =
     (case h of
        None \<Rightarrow> s
      | Some v \<Rightarrow>
          (let s1 = s\<lparr>player := (player s)\<lparr>health := v\<rparr>\<rparr>
           in if health (player s1) \<le> 0
              then (push_history System ''You have died. Game over.'' s1)\<lparr>gameOver := True\<rparr>
              else s1))"

definition add_item :: "string \<Rightarrow> game_state \<Rightarrow> game_state" where
  "add_item item s =
     (if item \<in> set (inventory (player s)) then s
      else push_history System (''Added to inventory: '' @ item)
             (s\<lparr>player := (player s)\<lparr>inventory := inventory (player s) @ [item]\<rparr>\<rparr>))"

definition apply_addItems :: "string list option \<Rightarrow> game_state \<Rightarrow> game_state" where
  "apply_addItems items s = (case items of None \<Rightarrow> s | Some xs \<Rightarrow> fold add_item xs s)"

definition remove_item :: "string \<Rightarrow> game_state \<Rightarrow> game_state" where
  "remove_item item s =
     (if item \<in> set (inventory (player s))
      then push_history System (''Removed from inventory: '' @ item)
             (s\<lparr>player := (player s)\<lparr>inventory := remove1 item (inventory (player s))\<rparr>\<rparr>)
      else s)"

definition apply_removeItems :: "string list option \<Rightarrow> game_state \<Rightarrow> game_state" where
  "apply_removeItems items s = (case items of None \<Rightarrow> s | Some xs \<Rightarrow> fold remove_item xs s)"

definition apply_newLocation :: "location option \<Rightarrow> game_state \<Rightarrow> game_state" where
  "apply_newLocation l s =
     (case l of
        None \<Rightarrow> s
      | Some loc \<Rightarrow>
          (let s1 = s\<lparr>currentLocation := loc\<rparr>
           in if loc_id loc \<noteq> [] \<and> loc_id loc \<notin> set (discoveredLocations s1)
              then push_history System (''Discovered new location: '' @ loc_name loc)
                     (s1\<lparr>discoveredLocations := discoveredLocations s1 @ [loc_id loc],
                         player := (player s1)\<lparr>experience := experience (player s1) + 10\<rparr>\<rparr>)
              else s1))"

fun quest_known :: "quest list \<Rightarrow> quest \<Rightarrow> bool" where
  "quest_known qs (QuestText t) = (QuestText t \<in> set qs)"
| "quest_known qs (QuestObj t d os) =
     list_ex (\<lambda>q. case q of QuestText _ \<Rightarrow> False | QuestObj t' _ _ \<Rightarrow> t' = t) qs"

fun quest_label :: "quest \<Rightarrow> string" where
  "quest_label (QuestText t) = t"
| "quest_label (QuestObj t d os) = t"

definition add_quest :: "quest \<Rightarrow> game_state \<Rightarrow> game_state" where
  "add_quest q s =
     (if quest_known (quests (player s)) q then s
      else (let s1 = s\<lparr>player := (player s)\<lparr>quests := quests (player s) @ [q]\<rparr>\<rparr>;
                s2 = push_history System (''New quest: '' @ quest_label q) s1
            in s2\<lparr>player := (player s2)\<lparr>experience := experience (player s2) + 15\<rparr>\<rparr>))"

definition apply_addQuests :: "quest list option \<Rightarrow> game_state \<Rightarrow> game_state" where
  "apply_addQuests qs s = (case qs of None \<Rightarrow> s | Some xs \<Rightarrow> fold add_quest xs s)"

definition apply_npcRelationships ::
  "(string \<times> relval) list option \<Rightarrow> game_state \<Rightarrow> game_state" where
  "apply_npcRelationships rs s =
     (case rs of
        None \<Rightarrow> s
      | Some xs \<Rightarrow>
          fold (\<lambda>(k, v) t. t\<lparr>npcRelationships := obj_assign k v (npcRelationships t)\<rparr>)
            (own_entries xs) s)"

definition add_effect :: "status_effect \<Rightarrow> game_state \<Rightarrow> game_state" where
  "add_effect e s =
     (if list_ex (\<lambda>x. se_name x = se_name e) (statusEffects (player s)) then s
      else push_history System (''Status effect: '' @ se_name e @ '' - '' @ se_description e)
             (s\<lparr>player := (player s)\<lparr>statusEffects := statusEffects (player s) @
                  [\<lparr>se_name = se_name e, se_description = se_description e,
                    se_duration = (if se_duration e = 0 then 5 else se_duration e),
                    se_effect = se_effect e\<rparr>]\<rparr>\<rparr>))"

definition apply_statusEffects :: "status_effect list option \<Rightarrow> game_state \<Rightarrow> game_state" where
  "apply_statusEffects es s = (case es of None \<Rightarrow> s | Some xs \<Rightarrow> fold add_effect xs s)"

definition apply_experience :: "host \<Rightarrow> rat option \<Rightarrow> game_state \<Rightarrow> game_state" where
  "apply_experience H g s =
     (case g of
        None \<Rightarrow> s
      | Some gain \<Rightarrow>
          if gain = 0 then s
          else (let s1 = s\<lparr>player := (player s)\<lparr>experience := experience (player s) + gain\<rparr>\<rparr>
                in if gain > 0 then push_history System (''Experience gained: '' @ num_str H gain) s1
                   else s1))"

definition apply_changes :: "host \<Rightarrow> changes \<Rightarrow> game_state \<Rightarrow> game_state" where
  "apply_changes H c s =
     apply_experience H (ch_experience c)
      (apply_statusEffects (ch_statusEffects c)
        (apply_npcRelationships (ch_npcRelationships c)
          (apply_addQuests (ch_addQuests c)
            (apply_newLocation (ch_newLocation c)
              (apply_removeItems (ch_removeItems c)
                (apply_addItems (ch_addItems c)
                  (apply_health (ch_health c) s)))))))"

definition tick_effects :: "game_state \<Rightarrow> game_state" where
  "tick_effects s =
     (if statusEffects (player s) \<noteq> []
      then s\<lparr>player := (player s)\<lparr>statusEffects :=
             filter (\<lambda>e. se_duration e > 0)
               (map (\<lambda>e. e\<lparr>se_duration := se_duration e - 1\<rparr>) (statusEffects (player s)))\<rparr>\<rparr>
      else s)"

text \<open>The remainder operator \<open>%\<close>: the quotient is truncated towards zero.\<close>

definition js_rem :: "rat \<Rightarrow> rat \<Rightarrow> rat" where
  "js_rem a b = a - b * of_int (if a / b < 0 then \<lceil>a / b\<rceil> else \<lfloor>a / b\<rfloor>)"

definition advance_time :: "host \<Rightarrow> game_state \<Rightarrow> game_state" where
  "advance_time H s =
     (let s1 = s\<lparr>timeElapsed := timeElapsed s + 1\<rparr>
      in if js_rem (timeElapsed s1) 24 = 0
         then push_history System
                (''Day '' @ num_str H (of_int \<lfloor>timeElapsed s1 / 24\<rfloor>) @ '' begins. You feel refreshed.'')
                (s1\<lparr>player := (player s1)\<lparr>health := min 100 (health (player s1) + 10)\<rparr>\<rparr>)
         else s1)"

definition level_up :: "host \<Rightarrow> game_state \<Rightarrow> game_state" where
  "level_up H s =
     (let currentLevel = (if level (player s) = 0 then 1 else level (player s));
          experienceThreshold = 100 * currentLevel
      in if experience (player s) \<ge> experienceThreshold
         then push_history System (''Level Up! You are now level '' @ num_str H (currentLevel + 1) @ ''.'')
                (s\<lparr>player := (player s)\<lparr>level := currentLevel + 1,
                      experience := experience (player s) - experienceThreshold,
                      health := 100\<rparr>\<rparr>)
         else s)"

definition limit_history :: "game_state \<Rightarrow> game_state" where
  "limit_history s =
     (if length (gameHistory s) > 50
      then s\<lparr>gameHistory := drop (length (gameHistory s) - 50) (gameHistory s)\<rparr>
      else s)"

text \<open>
  Everything \<open>updateGameState\<close> does before it cuts the history. The deep clone of the
  current state is the identity on values; \<open>now\<close> is the reading of the clock.
\<close>

definition reduce_uncapped ::
  "host \<Rightarrow> string \<Rightarrow> game_state \<Rightarrow> string \<Rightarrow> string \<Rightarrow> changes \<Rightarrow> game_state" where
  "reduce_uncapped H now currentState action narrative stateChanges =
     level_up H (advance_time H (tick_effects
       (apply_changes H stateChanges (record_action now action narrative currentState))))"

definition updateGameState ::
  "host \<Rightarrow> string \<Rightarrow> game_state \<Rightarrow> string \<Rightarrow> string \<Rightarrow> changes \<Rightarrow> game_state" where
  "updateGameState H now currentState action narrative stateChanges =
     limit_history (reduce_uncapped H now currentState action narrative stateChanges)"

section \<open>Regular expressions of the parser\<close>

text \<open>
  Each regular expression of the source is translated into an anchored matcher, a function
  that tries the pattern at the head of its argument. \<open>first_match\<close> is the search of
  \<open>String.match\<close> without the \<open>g\<close> flag: the leftmost position at which the pattern matches,
  the end of the text included.
\<close>

fun first_match :: "(string \<Rightarrow> 'a option) \<Rightarrow> string \<Rightarrow> 'a option" where
  "first_match m [] = m []"
| "first_match m (c # cs) = (case m (c # cs) of Some r \<Rightarrow> Some r | None \<Rightarrow> first_match m cs)"

definition strip_prefix :: "string \<Rightarrow> string \<Rightarrow> string option" where
  "strip_prefix p s = (if prefix p s then Some (drop (length p) s) else None)"

text \<open>
  A \<open>g\<close>-flag pass over the text. The matcher sees the character before the position (for
  \<open>^\<close>) and answers with the length of the match; all patterns used with it match at least
  one character. \<open>replace_all\<close> is \<open>String.replace\<close>, \<open>match_all\<close> is \<open>String.match\<close>; the
  counter is the number of characters of the current match still to be passed over.
\<close>

fun replace_all ::
  "(char option \<Rightarrow> string \<Rightarrow> nat option) \<Rightarrow> string \<Rightarrow> char option \<Rightarrow> nat \<Rightarrow> string \<Rightarrow> string"
where
  "replace_all m r prev k [] = []"
| "replace_all m r prev (Suc k) (c # cs) = replace_all m r (Some c) k cs"
| "replace_all m r prev 0 (c # cs) =
     (case m prev (c # cs) of
        Some (Suc n) \<Rightarrow> r @ replace_all m r (Some c) n cs
      | _ \<Rightarrow> c # replace_all m r (Some c) 0 cs)"

fun match_all :: "(string \<Rightarrow> nat option) \<Rightarrow> nat \<Rightarrow> string \<Rightarrow> string list" where
  "match_all m k [] = []"
| "match_all m (Suc k) (c # cs) = match_all m k cs"
| "match_all m 0 (c # cs) =
     (case m (c # cs) of
        Some (Suc n) \<Rightarrow> take (Suc n) (c # cs) # match_all m n cs
      | _ \<Rightarrow> match_all m 0 cs)"

text \<open>\<open>/NARRATIVE:(.*?)(?=STATE_CHANGES:|$)/s\<close>: the lazy group stops where the other marker
  or the end of the text follows. The result is the group.\<close>

fun until_marker :: "string \<Rightarrow> string \<Rightarrow> string" where
  "until_marker mk [] = []"
| "until_marker mk (c # cs) = (if prefix mk (c # cs) then [] else c # until_marker mk cs)"

definition narrative_match :: "string \<Rightarrow> string option" where
  "narrative_match raw =
     first_match (\<lambda>s. map_option (until_marker ''STATE_CHANGES:'') (strip_prefix ''NARRATIVE:'' s)) raw"

text \<open>\<open>/STATE_CHANGES:(.*)/s\<close>: the group is the rest of the text.\<close>

definition state_changes_match :: "string \<Rightarrow> string option" where
  "state_changes_match raw = first_match (strip_prefix ''STATE_CHANGES:'') raw"

text \<open>\<open>/,\s*}/g\<close> and \<open>/,\s*]/g\<close>: a comma, all the white space after it, the closing
  character.\<close>

definition m_trailing_comma :: "char \<Rightarrow> char option \<Rightarrow> string \<Rightarrow> nat option" where
  "m_trailing_comma close prev s =
     (case s of
        [] \<Rightarrow> None
      | c # cs \<Rightarrow>
          if c = CHR '','' \<and> prefix [close] (dropWhile is_space cs)
          then Some (length (takeWhile is_space cs) + 2) else None)"

definition remove_trailing_commas :: "string \<Rightarrow> string" where
  "remove_trailing_commas s =
     replace_all (m_trailing_comma CHR '']'') '']'' None 0
       (replace_all (m_trailing_comma CHR ''}'') ''}'' None 0 s)"

text \<open>The pattern occurs in a text: at some comma of the text, white space and then the
  closing character follow.\<close>

fun trailing_comma_in :: "char \<Rightarrow> string \<Rightarrow> bool" where
  "trailing_comma_in cl [] = False"
| "trailing_comma_in cl (c # cs) =
     ((c = CHR '','' \<and> prefix [cl] (dropWhile is_space cs)) \<or> trailing_comma_in cl cs)"

text \<open>\<open>/^#+\s+/gm\<close>: at the start of the text or after a line terminator, all the hash signs
  and all the white space after them, at least one of each.\<close>

definition m_heading :: "char option \<Rightarrow> string \<Rightarrow> nat option" where
  "m_heading prev s =
     (let hs = takeWhile (\<lambda>c. c = CHR ''#'') s;
          ws = takeWhile is_space (dropWhile (\<lambda>c. c = CHR ''#'') s)
      in if prev \<in> set [None, Some CHR 0x0A, Some CHR 0x0D] \<and> hs \<noteq> [] \<and> ws \<noteq> []
         then Some (length hs + length ws) else None)"

text \<open>\<open>/```[^`]*```/g\<close>: a fence, everything up to the next backquote, a fence.\<close>

definition m_fence :: "char option \<Rightarrow> string \<Rightarrow> nat option" where
  \<open>m_fence prev s =
     (case strip_prefix ''```'' s of
        None \<Rightarrow> None
      | Some r \<Rightarrow>
          if prefix ''```'' (dropWhile (\<lambda>c. c \<noteq> CHR ''`'') r)
          then Some (length (takeWhile (\<lambda>c. c \<noteq> CHR ''`'') r) + 6) else None)\<close>

text \<open>A literal under the \<open>i\<close> flag: among 8-bit characters only the letters a-z fold onto
  the capitals of the pattern.\<close>

definition upper_ascii :: "char \<Rightarrow> char" where
  "upper_ascii c =
     (case map_of (zip ''abcdefghijklmnopqrstuvwxyz'' ''ABCDEFGHIJKLMNOPQRSTUVWXYZ'') c of
        Some u \<Rightarrow> u | None \<Rightarrow> c)"

definition m_literal_ci :: "string \<Rightarrow> char option \<Rightarrow> string \<Rightarrow> nat option" where
  "m_literal_ci lit prev s =
     (if length lit \<le> length s \<and> map upper_ascii (take (length lit) s) = lit
      then Some (length lit) else None)"

definition sanitizeNarrative :: "string \<Rightarrow> string" where
  "sanitizeNarrative narrative =
     (let s1 = replace_all m_heading [] None 0 narrative;
          s2 = replace_all m_fence [] None 0 s1;
          s3 = replace_all (m_literal_ci ''NARRATIVE:'') [] None 0 s2;
          s4 = replace_all (m_literal_ci ''STATE_CHANGES:'') [] None 0 s3
      in trim s4)"

section \<open>JSON.parse\<close>

text \<open>
  The decoder of the host, after the JSON grammar: a lexer and a pushdown recogniser over the
  tokens. \<open>None\<close> is a SyntaxError. A \<open>\u\<close> escape is cut to its low byte, since the model's
  characters are 8-bit; a member that repeats a key overwrites the value at the key's first
  place.
\<close>

datatype tok =
    TLBrace | TRBrace | TLBrack | TRBrack | TColon | TComma
  | TStr string | TNum rat | TTrue | TFalse | TNull

definition escape_char :: "char \<Rightarrow> char option" where
  \<open>escape_char c = map_of [(CHR ''"'', CHR ''"''), (CHR 0x5C, CHR 0x5C), (CHR ''/'', CHR ''/''),
                            (CHR ''b'', CHR 0x08), (CHR ''f'', CHR 0x0C), (CHR ''n'', CHR 0x0A),
                            (CHR ''r'', CHR 0x0D), (CHR ''t'', CHR 0x09)] c\<close>

text \<open>The text after an opening quote: the decoded string and the number of characters up to
  and with the closing quote.\<close>

fun scan_string :: "string \<Rightarrow> (string \<times> nat) option" where
  "scan_string [] = None"
| "scan_string (c # cs) =
     (if c = CHR 0x22 then Some ([], 1)
      else if c = CHR 0x5C then
        (case cs of
           [] \<Rightarrow> None
         | e # es \<Rightarrow>
             if e = CHR ''u'' then
               (case es of
                  a # b # c' # d # rest \<Rightarrow>
                    (case (hex_val a, hex_val b, hex_val c', hex_val d) of
                       (Some h3, Some h2, Some h1, Some h0) \<Rightarrow>
                         map_option (\<lambda>(s, n). (char_of (16 * h1 + h0) # s, n + 6)) (scan_string rest)
                     | _ \<Rightarrow> None)
                | _ \<Rightarrow> None)
             else
               (case escape_char e of
                  None \<Rightarrow> None
                | Some x \<Rightarrow> map_option (\<lambda>(s, n). (x # s, n + 2)) (scan_string es)))
      else if (of_char c :: nat) < 32 then None
      else map_option (\<lambda>(s, n). (c # s, n + 1)) (scan_string cs))"

text \<open>The number grammar: an optional minus, an integer part without a leading zero, an
  optional fraction, an optional exponent. The value is exact.\<close>

definition number_value :: "string \<Rightarrow> rat option" where
  "number_value s =
     (let neg = prefix ''-'' s;
          s1 = (if neg then drop 1 s else s);
          ip = takeWhile is_digit s1;
          s2 = dropWhile is_digit s1;
          has_frac = prefix ''.'' s2;
          fp = (if has_frac then takeWhile is_digit (drop 1 s2) else []);
          s3 = (if has_frac then dropWhile is_digit (drop 1 s2) else s2);
          has_exp = (prefix ''e'' s3 \<or> prefix ''E'' s3);
          s4 = (if has_exp then drop 1 s3 else s3);
          eneg = prefix ''-'' s4;
          s5 = (if has_exp \<and> (eneg \<or> prefix ''+'' s4) then drop 1 s4 else s4);
          ep = (if has_exp then takeWhile is_digit s5 else []);
          s6 = (if has_exp then dropWhile is_digit s5 else s5);
          mant = (of_int (dec_val ip) + of_int (dec_val fp) / 10 ^ length fp :: rat);
          scaled = (if eneg then mant / 10 ^ nat (dec_val ep) else mant * 10 ^ nat (dec_val ep))
      in if ip = [] \<or> (1 < length ip \<and> prefix ''0'' ip) \<or> (has_frac \<and> fp = [])
            \<or> (has_exp \<and> ep = []) \<or> s6 \<noteq> []
         then None
         else Some (if neg then - scaled else scaled))"

definition is_number_char :: "char \<Rightarrow> bool" where
  "is_number_char c \<longleftrightarrow> c \<in> set ''0123456789+-.eE''"

definition is_json_space :: "char \<Rightarrow> bool" where
  "is_json_space c \<longleftrightarrow> c \<in> set [CHR 0x09, CHR 0x0A, CHR 0x0D, CHR 0x20]"

definition punct :: "char \<Rightarrow> tok option" where
  "punct c = map_of [(CHR ''{'', TLBrace), (CHR ''}'', TRBrace), (CHR ''['', TLBrack),
                     (CHR '']'', TRBrack), (CHR '':'', TColon), (CHR '','', TComma)] c"

definition keyword :: "string \<Rightarrow> (tok \<times> nat) option" where
  "keyword s =
     (if prefix ''true'' s then Some (TTrue, 3)
      else if prefix ''false'' s then Some (TFalse, 4)
      else if prefix ''null'' s then Some (TNull, 3)
      else None)"

text \<open>The lexer; the counter is the number of characters of the current token still to be
  passed over.\<close>

fun lex :: "nat \<Rightarrow> string \<Rightarrow> tok list option" where
  "lex k [] = Some []"
| "lex (Suc k) (c # cs) = lex k cs"
| "lex 0 (c # cs) =
     (if is_json_space c then lex 0 cs
      else if c = CHR 0x22 then
        (case scan_string cs of
           None \<Rightarrow> None
         | Some (s, n) \<Rightarrow> map_option (\<lambda>ts. TStr s # ts) (lex n cs))
      else if c = CHR ''-'' \<or> is_digit c then
        (case number_value (takeWhile is_number_char (c # cs)) of
           None \<Rightarrow> None
         | Some r \<Rightarrow> map_option (\<lambda>ts. TNum r # ts) (lex (length (takeWhile is_number_char cs)) cs))
      else
        (case punct c of
           Some t \<Rightarrow> map_option (\<lambda>ts. t # ts) (lex 0 cs)
         | None \<Rightarrow>
             (case keyword (c # cs) of
                Some (t, n) \<Rightarrow> map_option (\<lambda>ts. t # ts) (lex n cs)
              | None \<Rightarrow> None)))"

datatype frame =
    FArr "json list"
  | FObj "(string \<times> json) list"
  | FKey "(string \<times> json) list" string

datatype pmode = PValue | PFirstElem | PFirstKey | PKey | PColon | PNext | PDone json

text \<open>A finished value goes into the innermost open container, or ends the document.\<close>

fun emit :: "json \<Rightarrow> frame list \<Rightarrow> (pmode \<times> frame list) option" where
  "emit v [] = Some (PDone v, [])"
| "emit v (FArr es # st) = Some (PNext, FArr (v # es) # st)"
| "emit v (FKey ms k # st) = Some (PNext, FObj (obj_put k v ms) # st)"
| "emit v (FObj ms # st) = None"

fun scalar :: "tok \<Rightarrow> json option" where
  "scalar (TStr s) = Some (JStr s)"
| "scalar (TNum r) = Some (JNum r)"
| "scalar TTrue = Some (JBool True)"
| "scalar TFalse = Some (JBool False)"
| "scalar TNull = Some JNull"
| "scalar _ = None"

definition open_or_scalar :: "frame list \<Rightarrow> tok \<Rightarrow> (pmode \<times> frame list) option" where
  "open_or_scalar st t =
     (case t of
        TLBrack \<Rightarrow> Some (PFirstElem, FArr [] # st)
      | TLBrace \<Rightarrow> Some (PFirstKey, FObj [] # st)
      | _ \<Rightarrow> (case scalar t of Some v \<Rightarrow> emit v st | None \<Rightarrow> None))"

definition close_array :: "frame list \<Rightarrow> (pmode \<times> frame list) option" where
  "close_array st = (case st of FArr es # st' \<Rightarrow> emit (JArr (rev es)) st' | _ \<Rightarrow> None)"

definition close_object :: "frame list \<Rightarrow> (pmode \<times> frame list) option" where
  "close_object st = (case st of FObj ms # st' \<Rightarrow> emit (JObj ms) st' | _ \<Rightarrow> None)"

definition take_key :: "frame list \<Rightarrow> string \<Rightarrow> (pmode \<times> frame list) option" where
  "take_key st k = (case st of FObj ms # st' \<Rightarrow> Some (PColon, FKey ms k # st') | _ \<Rightarrow> None)"

definition pstep :: "pmode \<Rightarrow> frame list \<Rightarrow> tok \<Rightarrow> (pmode \<times> frame list) option" where
  "pstep m st t =
     (case m of
        PValue \<Rightarrow> open_or_scalar st t
      | PFirstElem \<Rightarrow> (if t = TRBrack then close_array st else open_or_scalar st t)
      | PFirstKey \<Rightarrow>
          (case t of TStr k \<Rightarrow> take_key st k | TRBrace \<Rightarrow> close_object st | _ \<Rightarrow> None)
      | PKey \<Rightarrow> (case t of TStr k \<Rightarrow> take_key st k | _ \<Rightarrow> None)
      | PColon \<Rightarrow> (if t = TColon then Some (PValue, st) else None)
      | PNext \<Rightarrow>
          (case t of
             TComma \<Rightarrow>
               (case st of
                  FArr es # st' \<Rightarrow> Some (PValue, st)
                | FObj ms # st' \<Rightarrow> Some (PKey, st)
                | _ \<Rightarrow> None)
           | TRBrack \<Rightarrow> close_array st
           | TRBrace \<Rightarrow> close_object st
           | _ \<Rightarrow> None)
      | PDone v \<Rightarrow> None)"

fun prun :: "pmode \<Rightarrow> frame list \<Rightarrow> tok list \<Rightarrow> json option" where
  "prun m st [] = (case m of PDone v \<Rightarrow> Some v | _ \<Rightarrow> None)"
| "prun m st (t # ts) = (case pstep m st t of None \<Rightarrow> None | Some (m', st') \<Rightarrow> prun m' st' ts)"

definition JSON_parse :: "string \<Rightarrow> json option" where
  "JSON_parse s = (case lex 0 s of None \<Rightarrow> None | Some ts \<Rightarrow> prun PValue [] ts)"

section \<open>The fallback decoder (responseParser.js, extractAndFixStateChanges)\<close>

definition dq :: char where
  "dq = CHR 0x22"

text \<open>The common head \<open>"key":\s*\<close> of the field patterns; the result is the text after it.\<close>

definition after_key :: "string \<Rightarrow> string \<Rightarrow> string option" where
  "after_key key s =
     map_option (dropWhile is_space) (strip_prefix (dq # key @ [dq, CHR '':'']) s)"

text \<open>\<open>/"health":\s*(\d+)/\<close> and the same for \<open>experience\<close>: the group is the run of digits.\<close>

definition m_number_field :: "string \<Rightarrow> string \<Rightarrow> string option" where
  "m_number_field key s =
     (case after_key key s of
        None \<Rightarrow> None
      | Some r \<Rightarrow> if takeWhile is_digit r = [] then None else Some (takeWhile is_digit r))"

text \<open>An opening character, a lazy group, the first closing character after it:
  \<open>/"addItems":\s*\[(.*?)\]/s\<close>, \<open>/"newLocation":\s*\{(.*?)\}/s\<close>, \<open>/"id":\s*"([^"]*)"/\<close>.\<close>

definition m_delimited :: "char \<Rightarrow> char \<Rightarrow> string \<Rightarrow> string option" where
  "m_delimited opening closing s =
     (case s of
        [] \<Rightarrow> None
      | c # cs \<Rightarrow>
          if c = opening \<and> closing \<in> set cs then Some (takeWhile (\<lambda>x. x \<noteq> closing) cs) else None)"

definition m_delimited_field :: "string \<Rightarrow> char \<Rightarrow> char \<Rightarrow> string \<Rightarrow> string option" where
  "m_delimited_field key opening closing s =
     (case after_key key s of None \<Rightarrow> None | Some r \<Rightarrow> m_delimited opening closing r)"

fun split_on :: "char \<Rightarrow> string \<Rightarrow> string list" where
  "split_on d [] = [[]]"
| "split_on d (c # cs) =
     (if c = d then [] # split_on d cs
      else (case split_on d cs of [] \<Rightarrow> [[c]] | p # ps \<Rightarrow> (c # p) # ps))"

text \<open>\<open>.split(',').map(item => item.trim().replace(/"/g, '')).filter(item => item.length > 0)\<close>\<close>

definition list_items :: "string \<Rightarrow> string list" where
  "list_items body =
     filter (\<lambda>item. item \<noteq> [])
       (map (\<lambda>item. filter (\<lambda>c. c \<noteq> dq) (trim item)) (split_on CHR '','' body))"

definition fix_number :: "string \<Rightarrow> string \<Rightarrow> (string \<times> json) list" where
  "fix_number key t =
     (case first_match (m_number_field key) t of
        None \<Rightarrow> []
      | Some ds \<Rightarrow> [(key, JNum (of_int (dec_val ds)))])"

definition fix_list :: "string \<Rightarrow> string \<Rightarrow> (string \<times> json) list" where
  "fix_list key t =
     (case first_match (m_delimited_field key CHR ''['' CHR '']'') t of
        None \<Rightarrow> []
      | Some body \<Rightarrow> if body = [] then [] else [(key, JArr (map JStr (list_items body)))])"

definition fix_newLocation :: "string \<Rightarrow> (string \<times> json) list" where
  "fix_newLocation t =
     (case first_match (m_delimited_field ''newLocation'' CHR ''{'' CHR ''}'') t of
        None \<Rightarrow> []
      | Some locationText \<Rightarrow>
          if locationText = [] then []
          else (case (first_match (m_delimited_field ''id'' dq dq) locationText,
                      first_match (m_delimited_field ''name'' dq dq) locationText,
                      first_match (m_delimited_field ''description'' dq dq) locationText) of
                  (Some i, Some n, Some d) \<Rightarrow>
                    [(''newLocation'',
                      JObj [(''id'', JStr i), (''name'', JStr n), (''description'', JStr d)])]
                | _ \<Rightarrow> []))"

text \<open>\<open>/"([^"]*)":\s*([^,}]*)/g\<close>: a quoted key, a colon, and the text up to the next comma
  or brace; the result is the length of the match.\<close>

definition is_value_char :: "char \<Rightarrow> bool" where
  "is_value_char c \<longleftrightarrow> c \<notin> set '',}''"

definition m_pair :: "string \<Rightarrow> nat option" where
  "m_pair s =
     (case s of
        [] \<Rightarrow> None
      | c # cs \<Rightarrow>
          if c = dq \<and> prefix [dq, CHR '':''] (dropWhile (\<lambda>x. x \<noteq> dq) cs)
          then (let r = drop 2 (dropWhile (\<lambda>x. x \<noteq> dq) cs)
                in Some (length (takeWhile (\<lambda>x. x \<noteq> dq) cs) + 3
                         + length (takeWhile is_space r)
                         + length (takeWhile is_value_char (dropWhile is_space r))))
          else None)"

text \<open>\<open>/:\s*([^,}]*)/\<close> on one pair.\<close>

definition m_value :: "string \<Rightarrow> string option" where
  "m_value s =
     (case s of
        [] \<Rightarrow> None
      | c # cs \<Rightarrow>
          if c = CHR '':'' then Some (takeWhile is_value_char (dropWhile is_space cs)) else None)"

definition fix_pair :: "host \<Rightarrow> string \<Rightarrow> (string \<times> json) list \<Rightarrow> (string \<times> json) list" where
  "fix_pair H pair acc =
     (case (first_match (m_delimited dq dq) pair, first_match m_value pair) of
        (Some key, Some v) \<Rightarrow>
          (let val = trim v
           in obj_assign key
                (case str_num H val of
                   None \<Rightarrow> JStr (filter (\<lambda>c. c \<noteq> dq) val)
                 | Some n \<Rightarrow> JNum n)
                acc)
      | _ \<Rightarrow> acc)"

definition fix_npcRelationships :: "host \<Rightarrow> string \<Rightarrow> (string \<times> json) list" where
  "fix_npcRelationships H t =
     (case first_match (m_delimited_field ''npcRelationships'' CHR ''{'' CHR ''}'') t of
        None \<Rightarrow> []
      | Some body \<Rightarrow>
          if body = [] then []
          else [(''npcRelationships'', JObj (fold (fix_pair H) (match_all m_pair 0 body) []))])"

definition extractAndFixStateChanges :: "host \<Rightarrow> string \<Rightarrow> json" where
  "extractAndFixStateChanges H stateChangesText =
     JObj (fix_number ''health'' stateChangesText
           @ fix_list ''addItems'' stateChangesText
           @ fix_list ''removeItems'' stateChangesText
           @ fix_newLocation stateChangesText
           @ fix_list ''addQuests'' stateChangesText
           @ fix_npcRelationships H stateChangesText
           @ fix_number ''experience'' stateChangesText)"

section \<open>The validator (responseParser.js, validateStateChanges)\<close>

definition clamp100 :: "rat \<Rightarrow> rat" where
  "clamp100 x = max 0 (min 100 x)"

text \<open>\<open>String(v)\<close> of a possibly undefined value.\<close>

fun str_of :: "host \<Rightarrow> json option \<Rightarrow> error + string" where
  "str_of H None = Inr ''undefined''"
| "str_of H (Some v) = js_String H v"

definition validate_health :: "host \<Rightarrow> json \<Rightarrow> error + rat option" where
  "validate_health H changes =
     thenE (get_prop changes ''health'')
       (\<lambda>v. case v of
          None \<Rightarrow> Inr None
        | Some x \<Rightarrow> thenE (js_Number H (Some x)) (\<lambda>n. Inr (map_option clamp100 n)))"

definition string_items :: "json list \<Rightarrow> string list" where
  "string_items xs = concat (map (\<lambda>x. case x of JStr s \<Rightarrow> [trim s] | _ \<Rightarrow> []) xs)"

definition validate_addItems :: "json \<Rightarrow> error + string list option" where
  "validate_addItems changes =
     thenE (get_prop changes ''addItems'')
       (\<lambda>v. Inr (case v of
          Some (JArr xs) \<Rightarrow> Some (string_items xs)
        | Some (JStr s) \<Rightarrow> if s = [] then None else Some [trim s]
        | _ \<Rightarrow> None))"

definition validate_removeItems :: "json \<Rightarrow> game_state \<Rightarrow> error + string list option" where
  "validate_removeItems changes currentState =
     thenE (get_prop changes ''removeItems'')
       (\<lambda>v. Inr (case v of
          Some (JArr xs) \<Rightarrow>
            Some (filter (\<lambda>item. item \<in> set (inventory (player currentState))) (string_items xs))
        | Some (JStr s) \<Rightarrow>
            if s \<noteq> [] \<and> trim s \<in> set (inventory (player currentState)) then Some [trim s]
            else None
        | _ \<Rightarrow> None))"

text \<open>\<open>/\s+/g\<close>: a run of white space.\<close>

definition m_spaces :: "char option \<Rightarrow> string \<Rightarrow> nat option" where
  "m_spaces prev s = (if takeWhile is_space s = [] then None else Some (length (takeWhile is_space s)))"

definition normalize_id :: "string \<Rightarrow> string" where
  "normalize_id s = replace_all m_spaces ''_'' None 0 (toLowerCase s)"

definition validate_newLocation :: "host \<Rightarrow> json \<Rightarrow> error + location option" where
  "validate_newLocation H changes =
     thenE (get_prop changes ''newLocation'')
       (\<lambda>v. case v of
          None \<Rightarrow> Inr None
        | Some location \<Rightarrow>
            if truthy location then
              thenE (get_prop location ''id'') (\<lambda>i.
              thenE (get_prop location ''name'') (\<lambda>n.
              thenE (get_prop location ''description'') (\<lambda>d.
                if truthy_opt i \<and> truthy_opt n \<and> truthy_opt d then
                  thenE (str_of H i) (\<lambda>si.
                  thenE (str_of H n) (\<lambda>sn.
                  thenE (str_of H d) (\<lambda>sd.
                    Inr (Some \<lparr>loc_id = normalize_id si, loc_name = trim sn,
                               loc_description = trim sd\<rparr>))))
                else Inr None)))
            else Inr None)"

text \<open>\<open>typeof quest === 'string' || (typeof quest === 'object' && quest.title)\<close>: \<open>null\<close> has
  type \<open>object\<close>, and reading its title raises.\<close>

definition quest_accepted :: "json \<Rightarrow> error + bool" where
  "quest_accepted quest =
     (case quest of
        JStr s \<Rightarrow> Inr True
      | JBool b \<Rightarrow> Inr False
      | JNum r \<Rightarrow> Inr False
      | _ \<Rightarrow> thenE (get_prop quest ''title'') (\<lambda>t. Inr (truthy_opt t)))"

definition quest_object :: "host \<Rightarrow> json \<Rightarrow> error + quest" where
  "quest_object H quest =
     thenE (get_prop quest ''title'') (\<lambda>t.
     thenE (str_of H t) (\<lambda>title.
     thenE (get_prop quest ''description'') (\<lambda>d.
     thenE (if truthy_opt d then thenE (str_of H d) (\<lambda>sd. Inr (trim sd)) else Inr []) (\<lambda>descr.
     thenE (get_prop quest ''objectives'') (\<lambda>os.
       Inr (QuestObj (trim title) descr (case os of Some (JArr xs) \<Rightarrow> xs | _ \<Rightarrow> [])))))))"

definition quest_normal :: "host \<Rightarrow> json \<Rightarrow> error + quest" where
  "quest_normal H quest =
     (case quest of JStr s \<Rightarrow> Inr (QuestText (trim s)) | _ \<Rightarrow> quest_object H quest)"

definition validate_addQuests :: "host \<Rightarrow> json \<Rightarrow> error + quest list option" where
  "validate_addQuests H changes =
     thenE (get_prop changes ''addQuests'')
       (\<lambda>v. case v of
          Some (JArr xs) \<Rightarrow>
            thenE (filterE quest_accepted xs) (\<lambda>ys.
            thenE (mapE (quest_normal H) ys) (\<lambda>qs. Inr (Some qs)))
        | Some (JStr s) \<Rightarrow> Inr (if s = [] then None else Some [QuestText (trim s)])
        | Some (JObj ms) \<Rightarrow>
            if truthy_opt (map_of ms ''title'')
            then thenE (quest_object H (JObj ms)) (\<lambda>q. Inr (Some [q]))
            else Inr None
        | _ \<Rightarrow> Inr None)"

text \<open>
  \<open>Object.entries\<close>: the members of an object in the order of enumeration; an array
  enumerates its positions, written in decimal.
\<close>

fun dec_str :: "nat \<Rightarrow> string" where
  "dec_str n =
     (if n < 10 then [''0123456789'' ! n] else dec_str (n div 10) @ [''0123456789'' ! (n mod 10)])"

fun entries :: "json \<Rightarrow> (string \<times> json) list" where
  "entries (JObj ms) = own_entries ms"
| "entries (JArr xs) = zip (map dec_str [0..<length xs]) xs"
| "entries _ = []"

definition relation_entry ::
  "string \<times> json \<Rightarrow> (string \<times> relval) list \<Rightarrow> (string \<times> relval) list" where
  "relation_entry e acc =
     (case snd e of
        JNum r \<Rightarrow> obj_assign (trim (fst e)) (RelNum (clamp100 r)) acc
      | JStr s \<Rightarrow> obj_assign (trim (fst e)) (RelText (trim s)) acc
      | _ \<Rightarrow> acc)"

definition validate_npcRelationships :: "json \<Rightarrow> error + (string \<times> relval) list option" where
  "validate_npcRelationships changes =
     thenE (get_prop changes ''npcRelationships'')
       (\<lambda>v. Inr (case v of
          Some (JObj ms) \<Rightarrow> Some (fold relation_entry (entries (JObj ms)) [])
        | Some (JArr xs) \<Rightarrow> Some (fold relation_entry (entries (JArr xs)) [])
        | _ \<Rightarrow> None))"

definition validate_experience :: "host \<Rightarrow> json \<Rightarrow> error + rat option" where
  "validate_experience H changes =
     thenE (get_prop changes ''experience'')
       (\<lambda>v. case v of
          None \<Rightarrow> Inr None
        | Some x \<Rightarrow> thenE (js_Number H (Some x)) (\<lambda>n. Inr (map_option (max 0) n)))"

definition effect_accepted :: "json \<Rightarrow> bool" where
  "effect_accepted effect =
     (case effect of JObj ms \<Rightarrow> truthy_opt (map_of ms ''name'') | _ \<Rightarrow> False)"

definition effect_normal :: "host \<Rightarrow> json \<Rightarrow> error + status_effect" where
  "effect_normal H effect =
     thenE (get_prop effect ''name'') (\<lambda>n.
     thenE (str_of H n) (\<lambda>sn.
     thenE (get_prop effect ''description'') (\<lambda>d.
     thenE (if truthy_opt d then thenE (str_of H d) (\<lambda>sd. Inr (trim sd)) else Inr []) (\<lambda>descr.
     thenE (get_prop effect ''duration'') (\<lambda>du.
     thenE (js_Number H du) (\<lambda>num.
     thenE (get_prop effect ''effect'') (\<lambda>ef.
       Inr \<lparr>se_name = trim sn, se_description = descr,
            se_duration = (case num of None \<Rightarrow> 5 | Some r \<Rightarrow> if r = 0 then 5 else r),
            se_effect = (case ef of None \<Rightarrow> JObj [] | Some x \<Rightarrow> if truthy x then x else JObj [])\<rparr>)))))))"

definition validate_statusEffects :: "host \<Rightarrow> json \<Rightarrow> error + status_effect list option" where
  "validate_statusEffects H changes =
     thenE (get_prop changes ''statusEffects'')
       (\<lambda>v. case v of
          Some (JArr xs) \<Rightarrow>
            thenE (mapE (effect_normal H) (filter effect_accepted xs)) (\<lambda>es. Inr (Some es))
        | _ \<Rightarrow> Inr None)"

definition validateStateChanges :: "host \<Rightarrow> json \<Rightarrow> game_state \<Rightarrow> error + changes" where
  "validateStateChanges H changes currentState =
     thenE (validate_health H changes) (\<lambda>h.
     thenE (validate_addItems changes) (\<lambda>ai.
     thenE (validate_removeItems changes currentState) (\<lambda>ri.
     thenE (validate_newLocation H changes) (\<lambda>nl.
     thenE (validate_addQuests H changes) (\<lambda>aq.
     thenE (validate_npcRelationships changes) (\<lambda>nr.
     thenE (validate_experience H changes) (\<lambda>ex.
     thenE (validate_statusEffects H changes) (\<lambda>se.
       Inr \<lparr>ch_health = h, ch_addItems = ai, ch_removeItems = ri, ch_newLocation = nl,
            ch_addQuests = aq, ch_npcRelationships = nr, ch_experience = ex,
            ch_statusEffects = se\<rparr>))))))))"

section \<open>The turn (responseParser.js, parseGameResponse; gameController.js, processAction)\<close>

record parsed =
  narrative :: string
  stateChanges :: changes

definition extract_narrative :: "string \<Rightarrow> string" where
  "extract_narrative rawResponse =
     (case narrative_match rawResponse of
        None \<Rightarrow> rawResponse
      | Some g \<Rightarrow> if g = [] then rawResponse else trim g)"

definition decode_changes :: "host \<Rightarrow> string \<Rightarrow> json" where
  "decode_changes H rawResponse =
     (case state_changes_match rawResponse of
        None \<Rightarrow> JObj []
      | Some g \<Rightarrow>
          if g = [] then JObj []
          else (case JSON_parse (remove_trailing_commas (trim g)) of
                  Some v \<Rightarrow> v
                | None \<Rightarrow> extractAndFixStateChanges H g))"

text \<open>The body of the outer \<open>try\<close>, and the function with its \<open>catch\<close>.\<close>

definition parseGameResponse_try :: "host \<Rightarrow> string \<Rightarrow> game_state \<Rightarrow> error + parsed" where
  "parseGameResponse_try H rawResponse currentGameState =
     thenE (validateStateChanges H (decode_changes H rawResponse) currentGameState)
       (\<lambda>validatedChanges.
          Inr \<lparr>narrative = sanitizeNarrative (extract_narrative rawResponse),
               stateChanges = validatedChanges\<rparr>)"

definition parseGameResponse :: "host \<Rightarrow> string \<Rightarrow> game_state \<Rightarrow> error + parsed" where
  "parseGameResponse H rawResponse currentGameState =
     (case parseGameResponse_try H rawResponse currentGameState of
        Inr r \<Rightarrow> Inr r
      | Inl e \<Rightarrow>
          Inr \<lparr>narrative = ''The magical forces seem confused. Please try another action.'',
               stateChanges = no_changes\<rparr>)"

text \<open>One turn, from the model's reply to the new state (processAction, after the model call).\<close>

definition applyTurn ::
  "host \<Rightarrow> string \<Rightarrow> game_state \<Rightarrow> string \<Rightarrow> string \<Rightarrow> error + string \<times> game_state" where
  "applyTurn H now currentState action rawResponse =
     thenE (parseGameResponse H rawResponse currentState)
       (\<lambda>r. Inr (narrative r,
                  updateGameState H now currentState action (narrative r) (stateChanges r)))"

section \<open>The world generator (services/worldGenerator.js)\<close>

record named =
  n_name :: string
  n_description :: string

record world_data =
  wd_type :: string
  wd_name :: string
  wd_description :: string
  wd_startingLocation :: location
  wd_introText :: string
  wd_potentialPlotHooks :: "string list"
  wd_factions :: "named list"
  wd_keyItems :: "named list"
  wd_nearbyLocations :: "location list option"
  wd_npcs :: "npc list option"
  wd_environment :: "environment option"

definition mk_location :: "string \<Rightarrow> string \<Rightarrow> string \<Rightarrow> location" where
  "mk_location i n d = \<lparr>loc_id = i, loc_name = n, loc_description = d\<rparr>"

definition mk_npc :: "string \<Rightarrow> string \<Rightarrow> string \<Rightarrow> rat \<Rightarrow> npc" where
  "mk_npc i n d r = \<lparr>npc_id = i, npc_name = n, npc_description = d, npc_relationship = r\<rparr>"

definition getFallbackWorld :: world_data where
  "getFallbackWorld =
     \<lparr>wd_type = ''fantasy'',
      wd_name = ''Eldoria'',
      wd_description = ''A realm of magic and mystery, where ancient forests hide forgotten secrets and mythical creatures roam the wilderness.'',
      wd_startingLocation = mk_location ''forest_edge'' ''Forest Edge''
        ''A dense, misty forest with ancient trees. A narrow path winds its way between massive trunks, disappearing into the shadows. The air is thick with the scent of moss and rain.'',
      wd_introText = ''You find yourself standing at the edge of a dense, misty forest. A narrow path winds its way between ancient trees, disappearing into the shadows. The air is thick with the scent of moss and rain. In the distance, you hear the faint sound of flowing water and what might be voices. Your journey in Eldoria begins here, at the threshold of the unknown.'',
      wd_potentialPlotHooks =
        [''Strange symbols carved into trees'', ''Rumors of a hidden temple'',
         ''Villagers disappearing in the night''],
      wd_factions =
        [\<lparr>n_name = ''The Guardians of the Grove'',
          n_description = ''Protectors of the forest who follow ancient druidic traditions.''\<rparr>,
         \<lparr>n_name = ''The Imperial Order'',
          n_description = ''Representatives of the distant empire, seeking to expand their influence.''\<rparr>],
      wd_keyItems =
        [\<lparr>n_name = ''Ancient Amulet'',
          n_description = ''A mysterious amulet that glows faintly in the presence of magic.''\<rparr>,
         \<lparr>n_name = ''Forest Map'',
          n_description = ''A weathered map showing hidden paths through the dense woods.''\<rparr>],
      wd_nearbyLocations = Some
        [mk_location ''village_clearing'' ''Village Clearing''
           ''A small settlement at the edge of the forest where traders and travelers rest.'',
         mk_location ''ancient_ruins'' ''Ancient Ruins''
           ''Crumbling stone structures covered in vines and moss, hinting at a civilization long gone.'',
         mk_location ''mystic_grove'' ''Mystic Grove''
           ''A peaceful clearing where magical flora grows and strange lights float in the air.''],
      wd_npcs = Some
        [mk_npc ''village_elder'' ''Elder Thorne''
           ''A wise village elder with knowledge of the forest and its secrets.'' 50,
         mk_npc ''wandering_merchant'' ''Trader Lyra''
           ''A traveling merchant who deals in rare and unusual goods.'' 50,
         mk_npc ''mysterious_stranger'' ''The Hooded Figure''
           ''A silent observer who seems to appear and disappear at will.'' 30],
      wd_environment = Some \<lparr>env_time = ''dusk'', env_weather = ''misty'', env_season = ''autumn''\<rparr>\<rparr>"

text \<open>
  The tables are object literals read with the lower-cased world type; a type that is not a
  key gives the fantasy entry. (The two lower-case names that an object literal inherits,
  \<open>constructor\<close> and \<open>__proto__\<close>, are outside the model.)
\<close>

definition locationSets :: "(string \<times> location list) list" where
  "locationSets =
     [(''fantasy'',
       [mk_location ''village_square'' ''Village Square''
          ''The bustling center of the nearby settlement, filled with merchants and townsfolk.'',
        mk_location ''ancient_ruins'' ''Ancient Ruins''
          ''Crumbling stone structures covered in vines and moss, hinting at a civilization long gone.'',
        mk_location ''dark_forest'' ''Dark Forest''
          ''A dense forest where sunlight barely penetrates the thick canopy of leaves overhead.'']),
      (''sci-fi'',
       [mk_location ''space_port'' ''Space Port''
          ''A busy docking area for interstellar vessels, filled with travelers from distant worlds.'',
        mk_location ''research_lab'' ''Research Laboratory''
          ''A sterile facility where scientists conduct experiments with advanced technology.'',
        mk_location ''alien_market'' ''Xenomarket''
          ''A crowded market where traders sell exotic goods from across the galaxy.'']),
      (''post-apocalyptic'',
       [mk_location ''ruined_city'' ''Ruined City''
          ''The hollow shell of a once-thriving metropolis, now home to scavengers and dangers.'',
        mk_location ''survivor_camp'' ''Survivor Camp''
          ''A fortified encampment where the remaining humans have banded together for safety.'',
        mk_location ''toxic_wastes'' ''Toxic Wastes''
          ''A hazardous area where chemicals have contaminated the landscape, creating mutated flora and fauna.'']),
      (''steampunk'',
       [mk_location ''clockwork_district'' ''Clockwork District''
          ''A section of the city filled with whirring gears and steam-powered machinery.'',
        mk_location ''airship_docks'' ''Airship Docks''
          ''Massive platforms where airships dock, loading and unloading passengers and cargo.'',
        mk_location ''inventors_guild'' (''Inventors'' @ [CHR 0x27] @ '' Guild'')
          ''A prestigious building where brilliant minds develop new mechanical wonders.'']),
      (''cyberpunk'',
       [mk_location ''neon_market'' ''Neon Market''
          ''A chaotic marketplace illuminated by colorful holographic advertisements.'',
        mk_location ''corporate_sector'' ''Corporate Sector''
          ''Towering skyscrapers where megacorporations control the fate of millions.'',
        mk_location ''underground_club'' ''Underground Club''
          ''A hidden nightclub where hackers and rebels gather away from prying eyes.''])]"

definition npcSets :: "(string \<times> npc list) list" where
  "npcSets =
     [(''fantasy'',
       [mk_npc ''village_elder'' ''Elder Thorne''
          ''A wise village elder with knowledge of the land.'' 50,
        mk_npc ''mysterious_stranger'' ''The Hooded Figure''
          ''A traveler who speaks little but seems to know much about recent events.'' 30,
        mk_npc ''tavern_keeper'' ''Innkeeper Mira''
          ''The cheerful proprietor of the local tavern, a hub of gossip and information.'' 60]),
      (''sci-fi'',
       [mk_npc ''station_ai'' ''ARIA''
          ''The artificial intelligence that manages the station systems.'' 50,
        mk_npc ''smuggler'' ''Captain Rax''
          ''A ship captain who transports goods of questionable legality across systems.'' 40,
        mk_npc ''scientist'' ''Dr. Elara Vex''
          ''A brilliant xenobiologist studying alien lifeforms.'' 55]),
      (''post-apocalyptic'',
       [mk_npc ''wasteland_guide'' ''Scrapper Jones''
          ''A seasoned survivor who knows how to navigate the dangerous wastes.'' 45,
        mk_npc ''trade_merchant'' ''Barter''
          ''A resourceful merchant who deals in salvaged goods and vital supplies.'' 50,
        mk_npc ''doctor'' ''Doc Myers''
          ''One of the few remaining medical professionals, treating injuries and radiation sickness.'' 60]),
      (''steampunk'',
       [mk_npc ''inventor'' ''Professor Cogsworth''
          ''An eccentric inventor always working on the next revolutionary device.'' 55,
        mk_npc ''airship_captain'' ''Captain Victoria Wells''
          ''The stern but fair captain of an airship that travels between major cities.'' 50,
        mk_npc ''aristocrat'' ''Lord Pemberton''
          ''A wealthy nobleman with connections throughout high society.'' 40]),
      (''cyberpunk'',
       [mk_npc ''hacker'' ''Glitch''
          ''A skilled netrunner who can breach almost any security system for the right price.'' 45,
        mk_npc ''fixer'' ''Jax''
          ''A well-connected middleman who arranges jobs and deals in the shadows.'' 50,
        mk_npc ''street_doc'' ''Dr. Circuit''
          ''An underground surgeon specializing in cybernetic implants and modifications.'' 55])]"

definition weatherSets :: "(string \<times> string list) list" where
  "weatherSets =
     [(''fantasy'', [''clear'', ''cloudy'', ''rainy'', ''foggy'', ''stormy'', ''windy'']),
      (''sci-fi'', [''clear'', ''meteor shower'', ''solar flare'', ''artificial weather'',
                    ''atmosphere fluctuation'']),
      (''post-apocalyptic'', [''toxic haze'', ''acid rain'', ''radiation storm'', ''dust storm'',
                              ''nuclear winter'']),
      (''steampunk'', [''smoggy'', ''foggy'', ''rainy'', ''clear with airship traffic'',
                       ''coal dust clouds'']),
      (''cyberpunk'', [''acid rain'', ''smog'', ''neon-lit darkness'', ''pollution haze'',
                       ''artificial weather''])]"

definition table_or_fantasy :: "(string \<times> 'a list) list \<Rightarrow> string \<Rightarrow> 'a list" where
  "table_or_fantasy table key =
     (case map_of table key of
        Some xs \<Rightarrow> xs
      | None \<Rightarrow> (case map_of table ''fantasy'' of Some ys \<Rightarrow> ys | None \<Rightarrow> []))"

definition generateNearbyLocations :: "world_data \<Rightarrow> location list" where
  "generateNearbyLocations worldData = table_or_fantasy locationSets (toLowerCase (wd_type worldData))"

definition generateBasicNPCs :: "world_data \<Rightarrow> npc list" where
  "generateBasicNPCs worldData = table_or_fantasy npcSets (toLowerCase (wd_type worldData))"

text \<open>
  \<open>options[Math.floor(Math.random() * options.length)]\<close>, the draw \<open>u\<close> of the random source
  being a parameter. The source draws from \<open>[0, 1)\<close>, where the index is in range; outside
  that range the read is undefined, written here as the empty text.
\<close>

definition pick :: "string list \<Rightarrow> rat \<Rightarrow> string" where
  "pick options u =
     (let i = \<lfloor>u * of_nat (length options)\<rfloor>
      in if 0 \<le> i \<and> nat i < length options then options ! nat i else [])"

definition timeOptions :: "string list" where
  "timeOptions = [''dawn'', ''morning'', ''midday'', ''afternoon'', ''dusk'', ''evening'', ''night'',
                  ''midnight'']"

definition generateEnvironment :: "rat \<Rightarrow> rat \<Rightarrow> rat \<Rightarrow> world_data \<Rightarrow> environment" where
  "generateEnvironment u1 u2 u3 worldData =
     \<lparr>env_time = pick timeOptions u1,
      env_weather = pick (table_or_fantasy weatherSets (toLowerCase (wd_type worldData))) u2,
      env_season = pick [''spring'', ''summer'', ''autumn'', ''winter''] u3\<rparr>"

definition enhanceWorldData :: "rat \<Rightarrow> rat \<Rightarrow> rat \<Rightarrow> world_data \<Rightarrow> world_data" where
  "enhanceWorldData u1 u2 u3 worldData =
     worldData\<lparr>wd_nearbyLocations := Some (generateNearbyLocations worldData),
               wd_npcs := Some (generateBasicNPCs worldData),
               wd_environment := Some (generateEnvironment u1 u2 u3 worldData)\<rparr>"

text \<open>\<open>/{[\s\S]*}/\<close>: from the first opening brace to the last closing brace after it.\<close>

definition json_span :: "string \<Rightarrow> string option" where
  "json_span response =
     (let r = dropWhile (\<lambda>c. c \<noteq> CHR ''{'') response
      in if CHR ''}'' \<in> set r then Some (rev (dropWhile (\<lambda>c. c \<noteq> CHR ''}'') (rev r))) else None)"

text \<open>
  \<open>validateWorldData\<close> runs only on a value that was decoded; it is a parameter here, so that
  what is proved about a reply that cannot be decoded holds whatever it does.
\<close>

definition parseWorldGeneration :: "(json \<Rightarrow> error + world_data) \<Rightarrow> string \<Rightarrow> world_data" where
  "parseWorldGeneration validateWorldData response =
     (case json_span response of
        None \<Rightarrow> getFallbackWorld
      | Some text \<Rightarrow>
          (case JSON_parse text of
             None \<Rightarrow> getFallbackWorld
           | Some worldData \<Rightarrow>
               (case validateWorldData worldData of
                  Inl e \<Rightarrow> getFallbackWorld
                | Inr validated \<Rightarrow> validated)))"

text \<open>
  \<open>generateWorld\<close>: \<open>llm\<close> is the model call, from the requested world type (which only the
  prompt uses) to the reply or the failure of the call.
\<close>

definition generateWorld ::
  "(string option \<Rightarrow> error + string) \<Rightarrow> (json \<Rightarrow> error + world_data) \<Rightarrow> rat \<Rightarrow> rat \<Rightarrow> rat
     \<Rightarrow> string option \<Rightarrow> world_data" where
  "generateWorld llm validateWorldData u1 u2 u3 worldType =
     (case llm worldType of
        Inl e \<Rightarrow> getFallbackWorld
      | Inr content \<Rightarrow> enhanceWorldData u1 u2 u3 (parseWorldGeneration validateWorldData content))"

section \<open>A new game (gameController.js, initializeGameState)\<close>

text \<open>The state built from the settings that the world generator returned; \<open>now\<close> is the
  reading of the clock.\<close>

definition initializeGameState :: "world_data \<Rightarrow> string \<Rightarrow> string \<Rightarrow> game_state" where
  "initializeGameState worldSettings characterName now =
     \<lparr>player = \<lparr>p_name = characterName, health = 100,
                 inventory = [''torch'', ''water flask'', ''map''], quests = [], experience = 0,
                 level = 1, skills = JObj [], statusEffects = []\<rparr>,
      world = \<lparr>w_name = wd_name worldSettings, w_type = wd_type worldSettings,
                w_description = wd_description worldSettings\<rparr>,
      currentLocation = wd_startingLocation worldSettings,
      gameHistory = [\<lparr>e_type = Narrative, e_text = wd_introText worldSettings\<rparr>],
      discoveredLocations = [loc_id (wd_startingLocation worldSettings)],
      npcRelationships = [],
      timeElapsed = 0,
      lastAction = None,
      gameOver = False,
      created = now,
      potentialPlotHooks = wd_potentialPlotHooks worldSettings,
      nearbyLocations = (case wd_nearbyLocations worldSettings of None \<Rightarrow> [] | Some ls \<Rightarrow> ls),
      availableNpcs = (case wd_npcs worldSettings of None \<Rightarrow> [] | Some ns \<Rightarrow> ns),
      environment = (case wd_environment worldSettings of
                       None \<Rightarrow> \<lparr>env_time = ''day'', env_weather = ''clear'', env_season = ''summer''\<rparr>
                     | Some e \<Rightarrow> e)\<rparr>"

text \<open>A session: the turns applied one after the other, each with its clock reading, action
  and reply.\<close>

fun run_turns :: "host \<Rightarrow> game_state \<Rightarrow> (string \<times> string \<times> string) list \<Rightarrow> error + game_state" where
  "run_turns H s [] = Inr s"
| "run_turns H s ((now, action, raw) # ts) =
     thenE (applyTurn H now s action raw) (\<lambda>r. run_turns H (snd r) ts)"

section \<open>Instances for the examples\<close>

text \<open>
  An instance of the host conversions, right on the natural numbers in decimal notation (the
  only numbers that the examples convert), and the state of a new game in the fallback world.
\<close>

definition decimal_host :: host where
  "decimal_host =
     \<lparr>num_str = (\<lambda>r. dec_str (nat \<lfloor>r\<rfloor>)),
      str_num = (\<lambda>s. if s \<noteq> [] \<and> list_all is_digit s then Some (of_int (dec_val s)) else None)\<rparr>"

definition new_game :: game_state where
  "new_game = initializeGameState getFallbackWorld ''Adventurer'' ''2024-01-01T00:00:00.000Z''"

text \<open>What a turn leaves of the active status effects.\<close>

definition ticked :: "status_effect list \<Rightarrow> status_effect list" where
  "ticked es = filter (\<lambda>e. se_duration e > 0) (map (\<lambda>e. e\<lparr>se_duration := se_duration e - 1\<rparr>) es)"

text \<open>A player five points short of the second level, and a player under a status effect.\<close>

definition veteran :: game_state where
  "veteran = new_game\<lparr>player := (player new_game)\<lparr>experience := 95\<rparr>\<rparr>"


text \<open>A game whose history has 49 entries.\<close>

definition crowded :: game_state where
  "crowded = new_game\<lparr>gameHistory :=
     map (\<lambda>i. \<lparr>e_type = System, e_text = dec_str i\<rparr>) [0..<49]\<rparr>"

text \<open>A new game after one turn that awards 500 experience.\<close>

definition after_dragon :: game_state where
  "after_dragon =
     updateGameState decimal_host ''2024-01-01T00:05:00.000Z'' new_game ''slay the dragon''
       ''The dragon falls.'' (no_changes\<lparr>ch_experience := Some 500\<rparr>)"

text \<open>A change set that names the starting location again.\<close>

definition way_back :: changes where
  "way_back = no_changes\<lparr>ch_newLocation :=
     Some \<lparr>loc_id = ''forest_edge'', loc_name = ''Forest Edge'',
           loc_description = ''The path you came by.''\<rparr>\<rparr>"

text \<open>None of the seven field patterns of the fallback decoder matches in the text.\<close>

definition no_field_matches :: "string \<Rightarrow> bool" where
  "no_field_matches t \<longleftrightarrow>
     first_match (m_number_field ''health'') t = None
     \<and> first_match (m_delimited_field ''addItems'' CHR ''['' CHR '']'') t = None
     \<and> first_match (m_delimited_field ''removeItems'' CHR ''['' CHR '']'') t = None
     \<and> first_match (m_delimited_field ''newLocation'' CHR ''{'' CHR ''}'') t = None
     \<and> first_match (m_delimited_field ''addQuests'' CHR ''['' CHR '']'') t = None
     \<and> first_match (m_delimited_field ''npcRelationships'' CHR ''{'' CHR ''}'') t = None
     \<and> first_match (m_number_field ''experience'') t = None"

section \<open>The definitions on examples\<close>

lemma JSON_parse_examples:
  \<open>JSON_parse ''{"a": [1, 2.5, -3e2, true, null], "b": {}}''
     = Some (JObj [(''a'', JArr [JNum 1, JNum (5 / 2), JNum (- 300), JBool True, JNull]),
                   (''b'', JObj [])])\<close>
  \<open>JSON_parse ''{"a": 1, "b": 2, "a": 3}'' = Some (JObj [(''a'', JNum 3), (''b'', JNum 2)])\<close>
  \<open>JSON_parse ''[1,]'' = None\<close>
  \<open>JSON_parse ''{"a": 1,}'' = None\<close>
  \<open>JSON_parse ''01'' = None\<close>
  \<open>JSON_parse ''{"a": 1} x'' = None\<close>
  \<open>JSON_parse [] = None\<close>
  by code_simp+

lemma sanitizeNarrative_example:
  \<open>sanitizeNarrative ''# Title\<newline>Text ```json {"a": 1}``` more narrative: x ''
     = ''Title\<newline>Text  more  x''\<close>
  by code_simp

lemma extractAndFixStateChanges_example:
  \<open>extractAndFixStateChanges decimal_host
     '' {"health": 50, "addItems": ["a", b , ""], "npcRelationships": {"a:b": 5, "c": "friend", "d": 7}, oops''
     = JObj [(''health'', JNum 50), (''addItems'', JArr [JStr ''a'', JStr ''b'']),
             (''npcRelationships'',
              JObj [(''a:b'', JStr ''b: 5''), (''c'', JStr ''friend''), (''d'', JNum 7)])]\<close>
  by code_simp

lemma validateStateChanges_example:
  \<open>validateStateChanges decimal_host
     (JObj [(''health'', JNum 150), (''addItems'', JArr [JStr '' sword '', JNum 5]),
            (''removeItems'', JArr [JStr ''map'', JStr ''crown'']),
            (''newLocation'', JObj [(''id'', JStr ''Dark  Cave''), (''name'', JStr '' Cave ''),
                                    (''description'', JStr ''Dark.'')]),
            (''npcRelationships'', JObj [(''b'', JNum 150), (''1'', JStr '' friend ''), ('' b'', JNum 3)]),
            (''experience'', JNum (- 5))]) new_game
     = Inr (no_changes\<lparr>ch_health := Some 100, ch_addItems := Some [''sword''],
              ch_removeItems := Some [''map''],
              ch_newLocation := Some \<lparr>loc_id = ''dark_cave'', loc_name = ''Cave'',
                                        loc_description = ''Dark.''\<rparr>,
              ch_npcRelationships := Some [(''1'', RelText ''friend''), (''b'', RelNum 3)],
              ch_experience := Some 0\<rparr>)\<close>
  by code_simp

lemma pick_in_range:
  assumes "0 \<le> u" "u < 1" "options \<noteq> []"
  shows "pick options u \<in> set options"
proof -
  let ?n = "length options"
  have n: "0 < ?n" using assms(3) by simp
  have "0 \<le> u * of_nat ?n" using assms(1) by simp
  then have lo: "0 \<le> \<lfloor>u * of_nat ?n\<rfloor>" by simp
  have "u * of_nat ?n < of_nat ?n" using assms(2) n by simp
  then have "\<lfloor>u * of_nat ?n\<rfloor> < int ?n" by (simp add: floor_less_iff)
  with lo have "nat \<lfloor>u * of_nat ?n\<rfloor> < ?n" by linarith
  with lo show ?thesis by (simp add: pick_def Let_def)
qed

section \<open>Properties of the reducer steps\<close>

lemma fold_keeps:
  assumes "\<And>x s. g (f x s) = g s"
  shows "g (fold f xs s) = g s"
  by (induction xs arbitrary: s) (simp_all add: assms)

lemma fold_invariant:
  assumes "P s" and "\<And>x s. P s \<Longrightarrow> P (f x s)"
  shows "P (fold f xs s)"
  using assms(1) by (induction xs arbitrary: s) (simp_all add: assms(2))

lemma fold_commute:
  assumes "\<And>x s. f x (u s) = u (f x s)"
  shows "fold f xs (u s) = u (fold f xs s)"
  by (induction xs arbitrary: s) (simp_all add: assms)

lemmas item_defs = add_item_def remove_item_def add_quest_def add_effect_def push_history_def

lemmas apply_defs = apply_addItems_def apply_removeItems_def apply_addQuests_def
  apply_statusEffects_def apply_npcRelationships_def

subsection \<open>Health and the end of the game\<close>

lemma health_apply_changes:
  "health (player (apply_changes H c s)) =
     (case ch_health c of None \<Rightarrow> health (player s) | Some h \<Rightarrow> h)"
proof -
  let ?g = "\<lambda>s. health (player s)"
  have 1: "?g (apply_health (ch_health c) s) =
     (case ch_health c of None \<Rightarrow> health (player s) | Some h \<Rightarrow> h)"
    by (simp add: apply_health_def push_history_def Let_def split: option.splits)
  have 2: "?g (apply_addItems x t) = ?g t" for x t
    by (cases x) (simp_all add: apply_defs fold_keeps [where g = ?g] item_defs)
  have 3: "?g (apply_removeItems x t) = ?g t" for x t
    by (cases x) (simp_all add: apply_defs fold_keeps [where g = ?g] item_defs)
  have 4: "?g (apply_newLocation x t) = ?g t" for x t
    by (simp add: apply_newLocation_def push_history_def Let_def split: option.splits)
  have 5: "?g (apply_addQuests x t) = ?g t" for x t
    by (cases x) (simp_all add: apply_defs fold_keeps [where g = ?g] item_defs Let_def)
  have 6: "?g (apply_npcRelationships x t) = ?g t" for x t
    by (cases x) (simp_all add: apply_defs fold_keeps [where g = ?g] split: prod.splits)
  have 7: "?g (apply_statusEffects x t) = ?g t" for x t
    by (cases x) (simp_all add: apply_defs fold_keeps [where g = ?g] item_defs)
  have 8: "?g (apply_experience H x t) = ?g t" for x t
    by (simp add: apply_experience_def push_history_def Let_def split: option.splits)
  show ?thesis
    by (simp add: apply_changes_def 1 2 3 4 5 6 7 8)
qed

lemma gameOver_apply_changes:
  "gameOver (apply_changes H c s) \<longleftrightarrow>
     gameOver s \<or> (case ch_health c of None \<Rightarrow> False | Some h \<Rightarrow> h \<le> 0)"
proof -
  let ?g = "gameOver"
  have 1: "?g (apply_health (ch_health c) s) \<longleftrightarrow>
     gameOver s \<or> (case ch_health c of None \<Rightarrow> False | Some h \<Rightarrow> h \<le> 0)"
    by (simp add: apply_health_def push_history_def Let_def split: option.splits)
  have 2: "?g (apply_addItems x t) = ?g t" for x t
    by (cases x) (simp_all add: apply_defs fold_keeps [where g = ?g] item_defs)
  have 3: "?g (apply_removeItems x t) = ?g t" for x t
    by (cases x) (simp_all add: apply_defs fold_keeps [where g = ?g] item_defs)
  have 4: "?g (apply_newLocation x t) = ?g t" for x t
    by (simp add: apply_newLocation_def push_history_def Let_def split: option.splits)
  have 5: "?g (apply_addQuests x t) = ?g t" for x t
    by (cases x) (simp_all add: apply_defs fold_keeps [where g = ?g] item_defs Let_def)
  have 6: "?g (apply_npcRelationships x t) = ?g t" for x t
    by (cases x) (simp_all add: apply_defs fold_keeps [where g = ?g] split: prod.splits)
  have 7: "?g (apply_statusEffects x t) = ?g t" for x t
    by (cases x) (simp_all add: apply_defs fold_keeps [where g = ?g] item_defs)
  have 8: "?g (apply_experience H x t) = ?g t" for x t
    by (simp add: apply_experience_def push_history_def Let_def split: option.splits)
  show ?thesis
    by (simp add: apply_changes_def 1 2 3 4 5 6 7 8)
qed

lemma health_level_up:
  assumes "0 \<le> health (player t)" "health (player t) \<le> 100"
  shows "0 \<le> health (player (level_up H t)) \<and> health (player (level_up H t)) \<le> 100"
  using assms by (simp add: level_up_def push_history_def Let_def)

lemma health_advance_time:
  assumes "0 \<le> health (player t)" "health (player t) \<le> 100"
  shows "0 \<le> health (player (advance_time H t)) \<and> health (player (advance_time H t)) \<le> 100"
  using assms by (simp add: advance_time_def push_history_def Let_def)

lemma health_tick: "health (player (tick_effects t)) = health (player t)"
  by (simp add: tick_effects_def)

lemma player_limit: "player (limit_history t) = player t"
  by (simp add: limit_history_def)

lemma health_tail:
  assumes "0 \<le> health (player t)" "health (player t) \<le> 100"
  shows "0 \<le> health (player (limit_history (level_up H (advance_time H (tick_effects t)))))
       \<and> health (player (limit_history (level_up H (advance_time H (tick_effects t))))) \<le> 100"
proof -
  have "0 \<le> health (player (tick_effects t)) \<and> health (player (tick_effects t)) \<le> 100"
    using assms by (simp add: health_tick)
  then have "0 \<le> health (player (advance_time H (tick_effects t)))
     \<and> health (player (advance_time H (tick_effects t))) \<le> 100"
    using health_advance_time by blast
  then have "0 \<le> health (player (level_up H (advance_time H (tick_effects t))))
     \<and> health (player (level_up H (advance_time H (tick_effects t)))) \<le> 100"
    using health_level_up by blast
  then show ?thesis by (simp add: player_limit)
qed

lemma gameOver_tail:
  "gameOver (limit_history (level_up H (advance_time H (tick_effects t)))) = gameOver t"
proof -
  have 1: "gameOver (limit_history x) = gameOver x" for x by (simp add: limit_history_def)
  have 2: "gameOver (level_up H x) = gameOver x" for x by (simp add: level_up_def push_history_def Let_def)
  have 3: "gameOver (advance_time H x) = gameOver x" for x by (simp add: advance_time_def push_history_def Let_def)
  have 4: "gameOver (tick_effects x) = gameOver x" for x by (simp add: tick_effects_def)
  show ?thesis by (simp add: 1 2 3 4)
qed

lemma validate_health_range:
  assumes "validateStateChanges H j s = Inr v" and "ch_health v = Some h"
  shows "0 \<le> h \<and> h \<le> 100"
proof -
  from assms(1) obtain hv where hv: "validate_health H j = Inr hv"
    by (cases "validate_health H j") (simp_all add: validateStateChanges_def thenE_def)
  from assms(1) have "ch_health v = hv"
    unfolding validateStateChanges_def hv thenE_def
    by (simp split: sum.splits) auto
  with assms(2) hv have "validate_health H j = Inr (Some h)" by simp
  then show ?thesis
    by (auto simp: validate_health_def thenE_def clamp100_def split: sum.splits option.splits)
qed

lemma health_updateGameState:
  assumes "0 \<le> health (player s)" "health (player s) \<le> 100"
    and "case ch_health c of None \<Rightarrow> True | Some h \<Rightarrow> 0 \<le> h \<and> h \<le> 100"
  shows "0 \<le> health (player (updateGameState H now s a n c))
       \<and> health (player (updateGameState H now s a n c)) \<le> 100"
proof -
  let ?t = "apply_changes H c (record_action now a n s)"
  have "health (player (record_action now a n s)) = health (player s)"
    by (simp add: record_action_def push_history_def)
  with assms have "0 \<le> health (player ?t) \<and> health (player ?t) \<le> 100"
    by (simp add: health_apply_changes split: option.splits)
  then show ?thesis
    unfolding updateGameState_def reduce_uncapped_def using health_tail by blast
qed

lemma gameOver_updateGameState:
  "gameOver (updateGameState H now s a n c) \<longleftrightarrow>
     gameOver s \<or> (case ch_health c of None \<Rightarrow> False | Some h \<Rightarrow> h \<le> 0)"
  by (simp add: updateGameState_def reduce_uncapped_def gameOver_tail gameOver_apply_changes
      record_action_def push_history_def)

lemma parseGameResponse_total: "\<exists>r. parseGameResponse H raw s = Inr r"
  by (simp add: parseGameResponse_def split: sum.splits)

lemma parseGameResponse_health:
  assumes "parseGameResponse H raw s = Inr r" "ch_health (stateChanges r) = Some h"
  shows "0 \<le> h \<and> h \<le> 100"
proof (cases "parseGameResponse_try H raw s")
  case (Inl e)
  with assms show ?thesis by (auto simp: parseGameResponse_def no_changes_def)
next
  case (Inr r')
  with assms(1) have "r' = r" by (simp add: parseGameResponse_def)
  with Inr obtain v where "validateStateChanges H (decode_changes H raw) s = Inr v" "stateChanges r = v"
    by (auto simp: parseGameResponse_try_def thenE_def split: sum.splits)
  with assms(2) validate_health_range show ?thesis by blast
qed

lemma applyTurn_total: "\<exists>n s'. applyTurn H now s a raw = Inr (n, s')"
  using parseGameResponse_total [of H raw s] by (auto simp: applyTurn_def thenE_def)

lemma applyTurn_health:
  assumes "0 \<le> health (player s)" "health (player s) \<le> 100"
    and "applyTurn H now s a raw = Inr (n, s')"
  shows "0 \<le> health (player s') \<and> health (player s') \<le> 100"
proof -
  from assms(3) obtain r where r: "parseGameResponse H raw s = Inr r"
    and s': "s' = updateGameState H now s a (narrative r) (stateChanges r)"
    by (auto simp: applyTurn_def thenE_def split: sum.splits)
  have "case ch_health (stateChanges r) of None \<Rightarrow> True | Some h \<Rightarrow> 0 \<le> h \<and> h \<le> 100"
    using parseGameResponse_health [OF r] by (auto split: option.splits)
  with assms(1,2) show ?thesis unfolding s' by (rule health_updateGameState)
qed

lemma applyTurn_gameOver:
  assumes "gameOver s" "applyTurn H now s a raw = Inr (n, s')"
  shows "gameOver s'"
  using assms by (auto simp: applyTurn_def thenE_def gameOver_updateGameState split: sum.splits)

lemma run_turns_gameOver:
  assumes "gameOver s"
  shows "\<exists>s'. run_turns H s turns = Inr s' \<and> gameOver s'"
  using assms
proof (induction turns arbitrary: s)
  case Nil
  then show ?case by simp
next
  case (Cons t ts)
  obtain now a raw where t: "t = (now, a, raw)" by (cases t) auto
  obtain n s1 where 1: "applyTurn H now s a raw = Inr (n, s1)"
    using applyTurn_total by blast
  with Cons.prems have "gameOver s1" by (rule applyTurn_gameOver)
  from Cons.IH [OF this] show ?case by (simp add: t 1 thenE_def)
qed

text \<open>
  C1. From a state whose health is in [0, 100], validating any decoded change set and applying
  it gives a state whose health is in [0, 100]; when the applied health is at most 0 the new
  state is over, and so is every state that any later turns lead to. The same bounds hold for
  a whole turn on any reply of the model.
\<close>

theorem health_clamped_gameOver_permanent:
  assumes "0 \<le> health (player s)" and "health (player s) \<le> 100"
    and "validateStateChanges H decoded s = Inr v"
  shows "(let s1 = updateGameState H now s action narr v
          in 0 \<le> health (player s1) \<and> health (player s1) \<le> 100
             \<and> ((\<exists>h. ch_health v = Some h \<and> h \<le> 0) \<longrightarrow>
                  gameOver s1 \<and> (\<forall>turns. \<exists>s2. run_turns H s1 turns = Inr s2 \<and> gameOver s2)))
       \<and> (\<exists>n s1. applyTurn H now s action raw = Inr (n, s1)
             \<and> 0 \<le> health (player s1) \<and> health (player s1) \<le> 100)"
proof -
  let ?s1 = "updateGameState H now s action narr v"
  have range: "case ch_health v of None \<Rightarrow> True | Some h \<Rightarrow> 0 \<le> h \<and> h \<le> 100"
    using validate_health_range [OF assms(3)] by (auto split: option.splits)
  have h: "0 \<le> health (player ?s1) \<and> health (player ?s1) \<le> 100"
    using assms(1,2) range by (rule health_updateGameState)
  have g: "gameOver ?s1 \<and> (\<forall>turns. \<exists>s2. run_turns H ?s1 turns = Inr s2 \<and> gameOver s2)"
    if "\<exists>h. ch_health v = Some h \<and> h \<le> 0"
  proof -
    from that have "gameOver ?s1" by (auto simp: gameOver_updateGameState)
    then show ?thesis using run_turns_gameOver by blast
  qed
  obtain n s1 where t: "applyTurn H now s action raw = Inr (n, s1)"
    using applyTurn_total by blast
  have "0 \<le> health (player s1) \<and> health (player s1) \<le> 100"
    using assms(1,2) t by (rule applyTurn_health)
  with t h g show ?thesis unfolding Let_def by blast
qed

theorem health_clamped_gameOver_permanent_witness:
  \<open>0 \<le> health (player new_game) \<and> health (player new_game) \<le> 100
   \<and> validateStateChanges decimal_host (JObj [(''health'', JNum (- 20))]) new_game
       = Inr (no_changes\<lparr>ch_health := Some 0\<rparr>)
   \<and> (let s1 = updateGameState decimal_host ''2024-01-01T00:05:00.000Z'' new_game ''jump''
                  ''You fall.'' (no_changes\<lparr>ch_health := Some 0\<rparr>)
       in 0 \<le> health (player s1) \<and> health (player s1) \<le> 100
          \<and> ((\<exists>h. ch_health (no_changes\<lparr>ch_health := Some 0\<rparr>) = Some h \<and> h \<le> 0) \<longrightarrow>
               gameOver s1
               \<and> (\<forall>turns. \<exists>s2. run_turns decimal_host s1 turns = Inr s2 \<and> gameOver s2)))
   \<and> (\<exists>n s1. applyTurn decimal_host ''2024-01-01T00:05:00.000Z'' new_game ''jump''
                 ''NARRATIVE: You fall.\<newline>STATE_CHANGES: {"health": -20}'' = Inr (n, s1)
         \<and> 0 \<le> health (player s1) \<and> health (player s1) \<le> 100)\<close>
proof -
  have h1: "0 \<le> health (player new_game)" by code_simp
  have h2: "health (player new_game) \<le> 100" by code_simp
  have h3: "validateStateChanges decimal_host (JObj [(''health'', JNum (- 20))]) new_game
       = Inr (no_changes\<lparr>ch_health := Some 0\<rparr>)" by code_simp
  note c = health_clamped_gameOver_permanent [OF h1 h2 h3,
      where now = "''2024-01-01T00:05:00.000Z''" and action = "''jump''" and narr = "''You fall.''"
        and raw = \<open>''NARRATIVE: You fall.\<newline>STATE_CHANGES: {"health": -20}''\<close>]
  show ?thesis
    by (rule conjI [OF h1 conjI [OF h2 conjI [OF h3 c]]])
qed

subsection \<open>Fields that no step reads\<close>

lemma lastAction_apply_changes:
  "apply_changes H c (s\<lparr>lastAction := v\<rparr>) = (apply_changes H c s)\<lparr>lastAction := v\<rparr>"
proof -
  let ?u = "\<lambda>s. s\<lparr>lastAction := v\<rparr>"
  have 1: "apply_health x (?u t) = ?u (apply_health x t)" for x t
    by (simp add: apply_health_def push_history_def Let_def split: option.splits)
  have 2: "apply_addItems x (?u t) = ?u (apply_addItems x t)" for x t
    by (cases x) (simp_all add: apply_defs item_defs fold_commute [where u = ?u])
  have 3: "apply_removeItems x (?u t) = ?u (apply_removeItems x t)" for x t
    by (cases x) (simp_all add: apply_defs item_defs fold_commute [where u = ?u])
  have 4: "apply_newLocation x (?u t) = ?u (apply_newLocation x t)" for x t
    by (simp add: apply_newLocation_def push_history_def Let_def split: option.splits)
  have 5: "apply_addQuests x (?u t) = ?u (apply_addQuests x t)" for x t
    by (cases x) (simp_all add: apply_defs item_defs Let_def fold_commute [where u = ?u])
  have 6: "apply_npcRelationships x (?u t) = ?u (apply_npcRelationships x t)" for x t
    by (cases x) (simp_all add: apply_defs fold_commute [where u = ?u] split: prod.splits)
  have 7: "apply_statusEffects x (?u t) = ?u (apply_statusEffects x t)" for x t
    by (cases x) (simp_all add: apply_defs item_defs fold_commute [where u = ?u])
  have 8: "apply_experience H x (?u t) = ?u (apply_experience H x t)" for x t
    by (simp add: apply_experience_def push_history_def Let_def split: option.splits)
  show ?thesis
    by (simp only: apply_changes_def 1 2 3 4 5 6 7 8)
qed

lemma lastAction_tail:
  "limit_history (level_up H (advance_time H (tick_effects (s\<lparr>lastAction := v\<rparr>))))
     = (limit_history (level_up H (advance_time H (tick_effects s))))\<lparr>lastAction := v\<rparr>"
proof -
  let ?u = "\<lambda>s. s\<lparr>lastAction := v\<rparr>"
  have 1: "tick_effects (?u t) = ?u (tick_effects t)" for t
    by (simp add: tick_effects_def)
  have 2: "advance_time H (?u t) = ?u (advance_time H t)" for t
    by (simp add: advance_time_def push_history_def Let_def)
  have 3: "level_up H (?u t) = ?u (level_up H t)" for t
    by (simp add: level_up_def push_history_def Let_def)
  have 4: "limit_history (?u t) = ?u (limit_history t)" for t
    by (simp add: limit_history_def)
  show ?thesis by (simp only: 1 2 3 4)
qed

lemma currentLocation_later_changes:
  "apply_experience H e (apply_statusEffects se (apply_npcRelationships nr
     (apply_addQuests q (s\<lparr>currentLocation := v\<rparr>))))
   = (apply_experience H e (apply_statusEffects se (apply_npcRelationships nr
     (apply_addQuests q s))))\<lparr>currentLocation := v\<rparr>"
proof -
  let ?u = "\<lambda>s. s\<lparr>currentLocation := v\<rparr>"
  have 5: "apply_addQuests x (?u t) = ?u (apply_addQuests x t)" for x t
    by (cases x) (simp_all add: apply_defs item_defs Let_def fold_commute [where u = ?u])
  have 6: "apply_npcRelationships x (?u t) = ?u (apply_npcRelationships x t)" for x t
    by (cases x) (simp_all add: apply_defs fold_commute [where u = ?u] split: prod.splits)
  have 7: "apply_statusEffects x (?u t) = ?u (apply_statusEffects x t)" for x t
    by (cases x) (simp_all add: apply_defs item_defs fold_commute [where u = ?u])
  have 8: "apply_experience H x (?u t) = ?u (apply_experience H x t)" for x t
    by (simp add: apply_experience_def push_history_def Let_def split: option.splits)
  show ?thesis
    by (simp only: 5 6 7 8)
qed

lemma currentLocation_tail:
  "limit_history (level_up H (advance_time H (tick_effects (s\<lparr>currentLocation := v\<rparr>))))
     = (limit_history (level_up H (advance_time H (tick_effects s))))\<lparr>currentLocation := v\<rparr>"
proof -
  let ?u = "\<lambda>s. s\<lparr>currentLocation := v\<rparr>"
  have 1: "tick_effects (?u t) = ?u (tick_effects t)" for t
    by (simp add: tick_effects_def)
  have 2: "advance_time H (?u t) = ?u (advance_time H t)" for t
    by (simp add: advance_time_def push_history_def Let_def)
  have 3: "level_up H (?u t) = ?u (level_up H t)" for t
    by (simp add: level_up_def push_history_def Let_def)
  have 4: "limit_history (?u t) = ?u (limit_history t)" for t
    by (simp add: limit_history_def)
  show ?thesis by (simp only: 1 2 3 4)
qed

subsection \<open>Discovered locations\<close>

lemma discovered_before_location:
  "discoveredLocations (apply_removeItems ri (apply_addItems ai (apply_health h
     (record_action now a n s)))) = discoveredLocations s"
proof -
  let ?g = discoveredLocations
  have 0: "?g (record_action now a n s) = ?g s"
    by (simp add: record_action_def push_history_def)
  have 1: "?g (apply_health x t) = ?g t" for x t
    by (simp add: apply_health_def push_history_def Let_def split: option.splits)
  have 2: "?g (apply_addItems x t) = ?g t" for x t
    by (cases x) (simp_all add: apply_defs fold_keeps [where g = ?g] item_defs)
  have 3: "?g (apply_removeItems x t) = ?g t" for x t
    by (cases x) (simp_all add: apply_defs fold_keeps [where g = ?g] item_defs)
  show ?thesis by (simp add: 0 1 2 3)
qed

lemma discovered_after_location:
  "discoveredLocations (limit_history (level_up H (advance_time H (tick_effects
     (apply_experience H e (apply_statusEffects se (apply_npcRelationships nr
       (apply_addQuests q t)))))))) = discoveredLocations t"
proof -
  let ?g = discoveredLocations
  have 5: "?g (apply_addQuests x t) = ?g t" for x t
    by (cases x) (simp_all add: apply_defs fold_keeps [where g = ?g] item_defs Let_def)
  have 6: "?g (apply_npcRelationships x t) = ?g t" for x t
    by (cases x) (simp_all add: apply_defs fold_keeps [where g = ?g] split: prod.splits)
  have 7: "?g (apply_statusEffects x t) = ?g t" for x t
    by (cases x) (simp_all add: apply_defs fold_keeps [where g = ?g] item_defs)
  have 8: "?g (apply_experience H x t) = ?g t" for x t
    by (simp add: apply_experience_def push_history_def Let_def split: option.splits)
  have 9: "?g (tick_effects t) = ?g t" for t
    by (simp add: tick_effects_def)
  have 10: "?g (advance_time H t) = ?g t" for t
    by (simp add: advance_time_def push_history_def Let_def)
  have 11: "?g (level_up H t) = ?g t" for t
    by (simp add: level_up_def push_history_def Let_def)
  have 12: "?g (limit_history t) = ?g t" for t
    by (simp add: limit_history_def)
  show ?thesis by (simp add: 5 6 7 8 9 10 11 12)
qed

lemma discovered_updateGameState:
  "discoveredLocations (updateGameState H now s a n c) =
     (case ch_newLocation c of
        None \<Rightarrow> discoveredLocations s
      | Some loc \<Rightarrow>
          if loc_id loc \<noteq> [] \<and> loc_id loc \<notin> set (discoveredLocations s)
          then discoveredLocations s @ [loc_id loc] else discoveredLocations s)"
proof -
  let ?x = "apply_removeItems (ch_removeItems c) (apply_addItems (ch_addItems c)
     (apply_health (ch_health c) (record_action now a n s)))"
  have x: "discoveredLocations ?x = discoveredLocations s"
    by (rule discovered_before_location)
  have "discoveredLocations (apply_newLocation (ch_newLocation c) ?x) =
     (case ch_newLocation c of
        None \<Rightarrow> discoveredLocations s
      | Some loc \<Rightarrow>
          if loc_id loc \<noteq> [] \<and> loc_id loc \<notin> set (discoveredLocations s)
          then discoveredLocations s @ [loc_id loc] else discoveredLocations s)"
    by (simp add: apply_newLocation_def Let_def push_history_def x split: option.splits)
  then show ?thesis
    by (simp only: updateGameState_def reduce_uncapped_def apply_changes_def
        discovered_after_location)
qed

lemma known_location_updateGameState:
  assumes "ch_newLocation c = Some loc" and "loc_id loc \<in> set (discoveredLocations s)"
  shows "updateGameState H now s a n c
     = (updateGameState H now s a n (c\<lparr>ch_newLocation := None\<rparr>))\<lparr>currentLocation := loc\<rparr>"
proof -
  let ?x = "apply_removeItems (ch_removeItems c) (apply_addItems (ch_addItems c)
     (apply_health (ch_health c) (record_action now a n s)))"
  have x: "discoveredLocations ?x = discoveredLocations s"
    by (rule discovered_before_location)
  have "apply_newLocation (ch_newLocation c) ?x = ?x\<lparr>currentLocation := loc\<rparr>"
    using assms by (simp add: apply_newLocation_def Let_def x)
  then show ?thesis
    by (simp add: updateGameState_def reduce_uncapped_def apply_changes_def
        apply_newLocation_def currentLocation_later_changes currentLocation_tail)
qed

lemma applyTurn_discovered:
  assumes "applyTurn H now s a raw = Inr (n, s')"
  shows "prefix (discoveredLocations s) (discoveredLocations s')"
  using assms
  by (auto simp: applyTurn_def thenE_def discovered_updateGameState split: sum.splits option.splits)

lemma run_turns_discovered:
  assumes "run_turns H s turns = Inr s'"
  shows "prefix (discoveredLocations s) (discoveredLocations s')"
  using assms
proof (induction turns arbitrary: s)
  case Nil
  then show ?case by simp
next
  case (Cons t ts)
  obtain now a raw where t: "t = (now, a, raw)" by (cases t) auto
  obtain n s1 where 1: "applyTurn H now s a raw = Inr (n, s1)"
    using applyTurn_total by blast
  with Cons.prems have "run_turns H s1 ts = Inr s'" by (simp add: t thenE_def)
  then have "prefix (discoveredLocations s1) (discoveredLocations s')" by (rule Cons.IH)
  moreover have "prefix (discoveredLocations s) (discoveredLocations s1)"
    using 1 by (rule applyTurn_discovered)
  ultimately show ?case by (rule prefix_order.trans [rotated])
qed

lemma run_turns_total: "\<exists>s'. run_turns H s turns = Inr s'"
proof (induction turns arbitrary: s)
  case Nil
  then show ?case by simp
next
  case (Cons t ts)
  obtain now a raw where t: "t = (now, a, raw)" by (cases t) auto
  obtain n s1 where 1: "applyTurn H now s a raw = Inr (n, s1)"
    using applyTurn_total by blast
  from Cons.IH [of s1] show ?case by (simp add: t 1 thenE_def)
qed

text \<open>
  C8. The discovered locations only grow: a turn leaves the previous list as a prefix. A new
  location whose id is already in the list changes the current location and nothing else:
  the state is the one of the same turn without the new location, so nothing is appended, no
  experience is awarded and no entry is logged. Every state of a session that starts from a
  new game contains the id of the starting location.
\<close>

theorem discovered_append_only:
  "prefix (discoveredLocations s) (discoveredLocations (updateGameState H now s action narr c))
   \<and> (\<forall>loc. ch_newLocation c = Some loc \<and> loc_id loc \<in> set (discoveredLocations s) \<longrightarrow>
         discoveredLocations (updateGameState H now s action narr c) = discoveredLocations s
         \<and> updateGameState H now s action narr c
             = (updateGameState H now s action narr (c\<lparr>ch_newLocation := None\<rparr>))
                 \<lparr>currentLocation := loc\<rparr>)
   \<and> (\<forall>turns s'. run_turns H (initializeGameState w name t0) turns = Inr s' \<longrightarrow>
         loc_id (wd_startingLocation w) \<in> set (discoveredLocations s'))"
proof -
  have 1: "prefix (discoveredLocations s) (discoveredLocations (updateGameState H now s action narr c))"
    by (simp add: discovered_updateGameState split: option.splits)
  have 2: "discoveredLocations (updateGameState H now s action narr c) = discoveredLocations s
         \<and> updateGameState H now s action narr c
             = (updateGameState H now s action narr (c\<lparr>ch_newLocation := None\<rparr>))
                 \<lparr>currentLocation := loc\<rparr>"
    if "ch_newLocation c = Some loc \<and> loc_id loc \<in> set (discoveredLocations s)" for loc
    using that known_location_updateGameState [of c loc s H now action narr]
    by (simp add: discovered_updateGameState)
  have 3: "loc_id (wd_startingLocation w) \<in> set (discoveredLocations s')"
    if "run_turns H (initializeGameState w name t0) turns = Inr s'" for turns s'
  proof -
    have "prefix (discoveredLocations (initializeGameState w name t0)) (discoveredLocations s')"
      using that by (rule run_turns_discovered)
    then have "set (discoveredLocations (initializeGameState w name t0)) \<subseteq> set (discoveredLocations s')"
      by (rule set_mono_prefix)
    then show ?thesis by (simp add: initializeGameState_def)
  qed
  from 1 2 3 show ?thesis by blast
qed

theorem discovered_append_only_witness:
  \<open>ch_newLocation way_back
      = Some \<lparr>loc_id = ''forest_edge'', loc_name = ''Forest Edge'',
              loc_description = ''The path you came by.''\<rparr>
   \<and> loc_id \<lparr>loc_id = ''forest_edge'', loc_name = ''Forest Edge'',
              loc_description = ''The path you came by.''\<rparr> \<in> set (discoveredLocations new_game)
   \<and> discoveredLocations (updateGameState decimal_host ''2024-01-01T00:05:00.000Z'' new_game
        ''go back'' ''You walk back.'' way_back) = discoveredLocations new_game
   \<and> updateGameState decimal_host ''2024-01-01T00:05:00.000Z'' new_game ''go back''
        ''You walk back.'' way_back
      = (updateGameState decimal_host ''2024-01-01T00:05:00.000Z'' new_game ''go back''
           ''You walk back.'' (way_back\<lparr>ch_newLocation := None\<rparr>))
          \<lparr>currentLocation := \<lparr>loc_id = ''forest_edge'', loc_name = ''Forest Edge'',
              loc_description = ''The path you came by.''\<rparr>\<rparr>
   \<and> (\<exists>s'. run_turns decimal_host new_game
          [(''2024-01-01T00:05:00.000Z'', ''go east'',
            ''NARRATIVE: A cave.\<newline>STATE_CHANGES: {"newLocation": {"id": "Dark Cave", "name": "Cave", "description": "Dark."}}'')]
          = Inr s'
        \<and> loc_id (wd_startingLocation getFallbackWorld) \<in> set (discoveredLocations s'))\<close>
proof -
  let ?loc = "\<lparr>loc_id = ''forest_edge'', loc_name = ''Forest Edge'',
              loc_description = ''The path you came by.''\<rparr>"
  let ?turns = \<open>[(''2024-01-01T00:05:00.000Z'', ''go east'',
            ''NARRATIVE: A cave.\<newline>STATE_CHANGES: {"newLocation": {"id": "Dark Cave", "name": "Cave", "description": "Dark."}}'')]\<close>
  have h1: "ch_newLocation way_back = Some ?loc"
    by (simp add: way_back_def)
  have h2: "loc_id ?loc \<in> set (discoveredLocations new_game)"
    by (simp add: new_game_def initializeGameState_def getFallbackWorld_def mk_location_def)
  obtain s' where h3: "run_turns decimal_host
      (initializeGameState getFallbackWorld ''Adventurer'' ''2024-01-01T00:00:00.000Z'') ?turns = Inr s'"
    using run_turns_total by blast
  note c = discovered_append_only [of new_game decimal_host "''2024-01-01T00:05:00.000Z''"
      "''go back''" "''You walk back.''" way_back getFallbackWorld "''Adventurer''"
      "''2024-01-01T00:00:00.000Z''"]
  from c h1 h2 have a: "discoveredLocations (updateGameState decimal_host ''2024-01-01T00:05:00.000Z'' new_game
        ''go back'' ''You walk back.'' way_back) = discoveredLocations new_game
   \<and> updateGameState decimal_host ''2024-01-01T00:05:00.000Z'' new_game ''go back''
        ''You walk back.'' way_back
      = (updateGameState decimal_host ''2024-01-01T00:05:00.000Z'' new_game ''go back''
           ''You walk back.'' (way_back\<lparr>ch_newLocation := None\<rparr>))\<lparr>currentLocation := ?loc\<rparr>"
    by blast
  from c h3 have "loc_id (wd_startingLocation getFallbackWorld) \<in> set (discoveredLocations s')"
    by blast
  with h3 have b: "\<exists>s'. run_turns decimal_host new_game ?turns = Inr s'
        \<and> loc_id (wd_startingLocation getFallbackWorld) \<in> set (discoveredLocations s')"
    unfolding new_game_def by blast
  show ?thesis
    by (rule conjI [OF h1 conjI [OF h2 conjI [OF a [THEN conjunct1] conjI [OF a [THEN conjunct2] b]]]])
qed

subsection \<open>The clock\<close>

lemma updateGameState_clock:
  "updateGameState H now s a n c
     = (updateGameState H now' s a n c)\<lparr>lastAction := Some \<lparr>la_text = a, la_timestamp = now\<rparr>\<rparr>"
proof -
  have "record_action now a n s
     = (record_action now' a n s)\<lparr>lastAction := Some \<lparr>la_text = a, la_timestamp = now\<rparr>\<rparr>"
    by (simp add: record_action_def)
  then show ?thesis
    by (simp only: updateGameState_def reduce_uncapped_def lastAction_apply_changes lastAction_tail)
qed

lemma generateWorld_draws:
  "generateWorld llm vwd u1 u2 u3 wt
     = (generateWorld llm vwd u1' u2' u3' wt)
         \<lparr>wd_environment := wd_environment (generateWorld llm vwd u1 u2 u3 wt)\<rparr>"
  by (simp add: generateWorld_def enhanceWorldData_def generateNearbyLocations_def
      generateBasicNPCs_def split: sum.splits)

lemma applyTurn_clock:
  "\<exists>n s0. \<forall>now. applyTurn H now s action raw
      = Inr (n, s0\<lparr>lastAction := Some \<lparr>la_text = action, la_timestamp = now\<rparr>\<rparr>)"
proof -
  obtain r where r: "parseGameResponse H raw s = Inr r"
    using parseGameResponse_total by blast
  let ?s0 = "updateGameState H [] s action (narrative r) (stateChanges r)"
  have "applyTurn H now s action raw
      = Inr (narrative r, ?s0\<lparr>lastAction := Some \<lparr>la_text = action, la_timestamp = now\<rparr>\<rparr>)" for now
    using updateGameState_clock [of H now s action "narrative r" "stateChanges r" "[]"]
    by (simp add: applyTurn_def thenE_def r)
  then show ?thesis by blast
qed

text \<open>
  C6 (amended). A turn reads the clock: two runs on the same state, action and reply give the
  same narrative and states that agree on everything but the time stamp of the last action.
  In the world generator the random draws reach the environment only.
\<close>

theorem turn_deterministic_up_to_clock:
  "(\<exists>n s1. applyTurn H now1 s action raw = Inr (n, s1)
       \<and> applyTurn H now2 s action raw
           = Inr (n, s1\<lparr>lastAction := Some \<lparr>la_text = action, la_timestamp = now2\<rparr>\<rparr>))
   \<and> generateWorld llm vwd u1 u2 u3 wt
       = (generateWorld llm vwd u1' u2' u3' wt)
           \<lparr>wd_environment := wd_environment (generateWorld llm vwd u1 u2 u3 wt)\<rparr>"
proof -
  obtain n s0 where c: "\<And>now. applyTurn H now s action raw
      = Inr (n, s0\<lparr>lastAction := Some \<lparr>la_text = action, la_timestamp = now\<rparr>\<rparr>)"
    using applyTurn_clock by blast
  let ?s1 = "s0\<lparr>lastAction := Some \<lparr>la_text = action, la_timestamp = now1\<rparr>\<rparr>"
  have "applyTurn H now1 s action raw = Inr (n, ?s1)" by (rule c)
  moreover have "applyTurn H now2 s action raw
      = Inr (n, ?s1\<lparr>lastAction := Some \<lparr>la_text = action, la_timestamp = now2\<rparr>\<rparr>)"
    by (simp add: c)
  ultimately show ?thesis using generateWorld_draws by blast
qed

text \<open>C6 as stated fails: the same state, action and reply at two clock readings.\<close>

theorem turn_not_deterministic_counterexample:
  \<open>applyTurn decimal_host ''2024-01-01T00:05:00.000Z'' new_game ''look around''
       ''NARRATIVE: You see trees.\<newline>STATE_CHANGES: {}''
   \<noteq> applyTurn decimal_host ''2024-01-01T00:05:01.000Z'' new_game ''look around''
       ''NARRATIVE: You see trees.\<newline>STATE_CHANGES: {}''\<close>
proof -
  obtain n s0 where c: \<open>\<And>now. applyTurn decimal_host now new_game ''look around''
       ''NARRATIVE: You see trees.\<newline>STATE_CHANGES: {}''
      = Inr (n, s0\<lparr>lastAction := Some \<lparr>la_text = ''look around'', la_timestamp = now\<rparr>\<rparr>)\<close>
    using applyTurn_clock by blast
  have "s0\<lparr>lastAction := Some \<lparr>la_text = ''look around'', la_timestamp = ''2024-01-01T00:05:00.000Z''\<rparr>\<rparr>
      \<noteq> s0\<lparr>lastAction := Some \<lparr>la_text = ''look around'', la_timestamp = ''2024-01-01T00:05:01.000Z''\<rparr>\<rparr>"
  proof
    assume "s0\<lparr>lastAction := Some \<lparr>la_text = ''look around'', la_timestamp = ''2024-01-01T00:05:00.000Z''\<rparr>\<rparr>
      = s0\<lparr>lastAction := Some \<lparr>la_text = ''look around'', la_timestamp = ''2024-01-01T00:05:01.000Z''\<rparr>\<rparr>"
    then have "lastAction (s0\<lparr>lastAction := Some \<lparr>la_text = ''look around'', la_timestamp = ''2024-01-01T00:05:00.000Z''\<rparr>\<rparr>)
      = lastAction (s0\<lparr>lastAction := Some \<lparr>la_text = ''look around'', la_timestamp = ''2024-01-01T00:05:01.000Z''\<rparr>\<rparr>)"
      by (rule arg_cong)
    then show False by simp
  qed
  then show ?thesis by (simp add: c)
qed

subsection \<open>Levels\<close>

lemma level_apply_changes: "level (player (apply_changes H c s)) = level (player s)"
proof -
  let ?g = "\<lambda>s. level (player s)"
  have 1: "?g (apply_health x t) = ?g t" for x t
    by (simp add: apply_health_def push_history_def Let_def split: option.splits)
  have 2: "?g (apply_addItems x t) = ?g t" for x t
    by (cases x) (simp_all add: apply_defs fold_keeps [where g = ?g] item_defs)
  have 3: "?g (apply_removeItems x t) = ?g t" for x t
    by (cases x) (simp_all add: apply_defs fold_keeps [where g = ?g] item_defs)
  have 4: "?g (apply_newLocation x t) = ?g t" for x t
    by (simp add: apply_newLocation_def push_history_def Let_def split: option.splits)
  have 5: "?g (apply_addQuests x t) = ?g t" for x t
    by (cases x) (simp_all add: apply_defs fold_keeps [where g = ?g] item_defs Let_def)
  have 6: "?g (apply_npcRelationships x t) = ?g t" for x t
    by (cases x) (simp_all add: apply_defs fold_keeps [where g = ?g] split: prod.splits)
  have 7: "?g (apply_statusEffects x t) = ?g t" for x t
    by (cases x) (simp_all add: apply_defs fold_keeps [where g = ?g] item_defs)
  have 8: "?g (apply_experience H x t) = ?g t" for x t
    by (simp add: apply_experience_def push_history_def Let_def split: option.splits)
  show ?thesis
    by (simp add: apply_changes_def 1 2 3 4 5 6 7 8)
qed

lemma level_before_level_up:
  "level (player (advance_time H (tick_effects t))) = level (player t)
   \<and> experience (player (advance_time H (tick_effects t))) = experience (player t)"
proof -
  have 1: "level (player (advance_time H x)) = level (player x)
     \<and> experience (player (advance_time H x)) = experience (player x)" for x
    by (simp add: advance_time_def push_history_def Let_def)
  have 2: "level (player (tick_effects x)) = level (player x)
     \<and> experience (player (tick_effects x)) = experience (player x)" for x
    by (simp add: tick_effects_def)
  show ?thesis by (simp add: 1 2)
qed

lemma level_up_once:
  "(100 * (if level (player t) = 0 then 1 else level (player t)) \<le> experience (player t) \<longrightarrow>
      level (player (level_up H t)) = (if level (player t) = 0 then 1 else level (player t)) + 1
      \<and> experience (player (level_up H t))
          = experience (player t) - 100 * (if level (player t) = 0 then 1 else level (player t))
      \<and> health (player (level_up H t)) = 100)
   \<and> (experience (player t) < 100 * (if level (player t) = 0 then 1 else level (player t)) \<longrightarrow>
      level_up H t = t)"
  by (simp add: level_up_def push_history_def Let_def)

lemma experience_only:
  "experience (player (apply_changes H (no_changes\<lparr>ch_experience := Some g\<rparr>) t))
     = experience (player t) + g"
  by (simp add: apply_changes_def no_changes_def apply_health_def apply_defs
      apply_newLocation_def apply_experience_def push_history_def Let_def)

lemma isSafeInteger_iff: "isSafeInteger r \<longleftrightarrow> r \<in> \<int> \<and> \<bar>r\<bar> \<le> 9007199254740991"
  by (auto simp add: isSafeInteger_def Ints_def of_int_floor_cancel)

lemma experience_grows:
  assumes "case ch_experience c of None \<Rightarrow> True | Some g \<Rightarrow> 0 \<le> g"
  shows "experience (player t) \<le> experience (player (apply_changes H c t))"
proof -
  let ?g = "\<lambda>s. experience (player s)"
  have 1: "?g (apply_health x t) = ?g t" for x t
    by (simp add: apply_health_def push_history_def Let_def split: option.splits)
  have 2: "?g (apply_addItems x t) = ?g t" for x t
    by (cases x) (simp_all add: apply_defs fold_keeps [where g = ?g] item_defs)
  have 3: "?g (apply_removeItems x t) = ?g t" for x t
    by (cases x) (simp_all add: apply_defs fold_keeps [where g = ?g] item_defs)
  have 4: "?g t \<le> ?g (apply_newLocation x t)" for x t
    by (simp add: apply_newLocation_def push_history_def Let_def split: option.splits)
  have q: "?g u \<le> ?g (fold add_quest xs t)" if "?g u \<le> ?g t" for xs u t
    using that by (rule fold_invariant) (simp add: item_defs Let_def)
  have 5: "?g t \<le> ?g (apply_addQuests x t)" for x t
    by (cases x) (simp_all add: apply_defs q)
  have 6: "?g (apply_npcRelationships x t) = ?g t" for x t
    by (cases x) (simp_all add: apply_defs fold_keeps [where g = ?g] split: prod.splits)
  have 7: "?g (apply_statusEffects x t) = ?g t" for x t
    by (cases x) (simp_all add: apply_defs fold_keeps [where g = ?g] item_defs)
  have 8: "?g t \<le> ?g (apply_experience H (ch_experience c) t)" for t
    using assms by (simp add: apply_experience_def push_history_def Let_def split: option.splits)
  have "?g t \<le> ?g (apply_newLocation (ch_newLocation c)
      (apply_removeItems (ch_removeItems c) (apply_addItems (ch_addItems c)
        (apply_health (ch_health c) t))))"
    using 4 [of "apply_removeItems (ch_removeItems c) (apply_addItems (ch_addItems c)
        (apply_health (ch_health c) t))"] by (simp add: 1 2 3)
  also have "\<dots> \<le> ?g (apply_addQuests (ch_addQuests c) (apply_newLocation (ch_newLocation c)
      (apply_removeItems (ch_removeItems c) (apply_addItems (ch_addItems c)
        (apply_health (ch_health c) t)))))"
    by (rule 5)
  also have "\<dots> = ?g (apply_statusEffects (ch_statusEffects c)
        (apply_npcRelationships (ch_npcRelationships c) (apply_addQuests (ch_addQuests c)
      (apply_newLocation (ch_newLocation c)
      (apply_removeItems (ch_removeItems c) (apply_addItems (ch_addItems c)
        (apply_health (ch_health c) t)))))))"
    by (simp add: 6 7)
  also have "\<dots> \<le> ?g (apply_changes H c t)"
    unfolding apply_changes_def by (rule 8)
  finally show ?thesis .
qed

text \<open>
  C2 (amended). The leveling step runs once in a turn. Let L be the current level (1 when the
  stored level is 0) and E the experience after the awards of the turn. The level and the
  experience of the state and the award of the change set are safe integers that are not
  negative, and 100 L and E are safe integers: then every sum of the turn lies between the
  stored experience and E, and the host computes what the model computes. When E is at least
  100 L the level becomes L + 1, the experience E - 100 L and the health 100, the new level
  and experience being safe integers again; otherwise level and experience stay. The step is
  not repeated when E - 100 L still reaches the next threshold. From level 1 and experience
  95, an award of 10 gives level 2, experience 5 and health 100.
\<close>

theorem leveling_once_per_turn:
  "(let L = (if level (player s) = 0 then 1 else level (player s));
        E = experience (player (apply_changes H c (record_action now action narr s)));
        p = player (updateGameState H now s action narr c)
    in isSafeInteger (level (player s)) \<and> 0 \<le> level (player s)
       \<and> isSafeInteger (experience (player s)) \<and> 0 \<le> experience (player s)
       \<and> (case ch_experience c of None \<Rightarrow> True | Some g \<Rightarrow> isSafeInteger g \<and> 0 \<le> g)
       \<and> isSafeInteger (100 * L) \<and> isSafeInteger E \<longrightarrow>
         (100 * L \<le> E \<longrightarrow>
            level p = L + 1 \<and> experience p = E - 100 * L \<and> health p = 100
            \<and> isSafeInteger (level p) \<and> isSafeInteger (experience p) \<and> 0 \<le> experience p)
         \<and> (E < 100 * L \<longrightarrow> level p = level (player s) \<and> experience p = E)
         \<and> experience (player s) \<le> E)
   \<and> (level (player s) = 1 \<and> experience (player s) = 95 \<longrightarrow>
        (let p = player (updateGameState H now s action narr (no_changes\<lparr>ch_experience := Some 10\<rparr>))
         in level p = 2 \<and> experience p = 5 \<and> health p = 100))"
proof -
  define L where "L = (if level (player s) = 0 then 1 else level (player s))"
  have main: "(100 * L
          \<le> experience (player (apply_changes H c' (record_action now action narr s))) \<longrightarrow>
        level (player (updateGameState H now s action narr c')) = L + 1
        \<and> experience (player (updateGameState H now s action narr c'))
          = experience (player (apply_changes H c' (record_action now action narr s))) - 100 * L
        \<and> health (player (updateGameState H now s action narr c')) = 100)
     \<and> (experience (player (apply_changes H c' (record_action now action narr s))) < 100 * L \<longrightarrow>
        level (player (updateGameState H now s action narr c')) = level (player s)
        \<and> experience (player (updateGameState H now s action narr c'))
          = experience (player (apply_changes H c' (record_action now action narr s))))" for c'
  proof -
    let ?t = "advance_time H (tick_effects (apply_changes H c' (record_action now action narr s)))"
    have l: "level (player ?t) = level (player s)"
      by (simp add: level_before_level_up level_apply_changes record_action_def push_history_def)
    have e: "experience (player ?t)
        = experience (player (apply_changes H c' (record_action now action narr s)))"
      by (simp add: level_before_level_up)
    have u: "player (updateGameState H now s action narr c') = player (level_up H ?t)"
      by (simp add: updateGameState_def reduce_uncapped_def player_limit)
    show ?thesis
      using level_up_once [of ?t H] by (simp add: u l e L_def)
  qed
  have ex: "experience (player (apply_changes H (no_changes\<lparr>ch_experience := Some 10\<rparr>)
              (record_action now action narr s))) = experience (player s) + 10"
    by (simp add: experience_only record_action_def push_history_def)
  have example: "level (player (updateGameState H now s action narr (no_changes\<lparr>ch_experience := Some 10\<rparr>))) = 2
      \<and> experience (player (updateGameState H now s action narr (no_changes\<lparr>ch_experience := Some 10\<rparr>))) = 5
      \<and> health (player (updateGameState H now s action narr (no_changes\<lparr>ch_experience := Some 10\<rparr>))) = 100"
    if "level (player s) = 1 \<and> experience (player s) = 95"
    using main [of "no_changes\<lparr>ch_experience := Some 10\<rparr>"] that unfolding ex L_def by simp
  define E where "E = experience (player (apply_changes H c (record_action now action narr s)))"
  have grows: "experience (player s) \<le> E"
    if "case ch_experience c of None \<Rightarrow> True | Some g \<Rightarrow> isSafeInteger g \<and> 0 \<le> g"
  proof -
    have "case ch_experience c of None \<Rightarrow> True | Some g \<Rightarrow> 0 \<le> g"
      using that by (simp split: option.splits)
    from experience_grows [OF this, of "record_action now action narr s" H]
    show ?thesis by (simp add: E_def record_action_def push_history_def)
  qed
  have safe: "isSafeInteger (L + 1) \<and> isSafeInteger (E - 100 * L) \<and> 0 \<le> E - 100 * L"
    if a: "isSafeInteger (level (player s))" "0 \<le> level (player s)"
      and b: "isSafeInteger (100 * L)" "isSafeInteger E" "100 * L \<le> E"
  proof -
    have i: "L \<in> \<int>" using a(1) by (simp add: L_def isSafeInteger_iff)
    have "0 < L" using a(2) by (simp add: L_def)
    with i have p: "1 \<le> L" by (auto elim!: Ints_cases)
    have 1: "L + 1 \<in> \<int>" "E - 100 * L \<in> \<int>"
      using i b(1,2) by (simp_all add: isSafeInteger_iff)
    have 2: "\<bar>L + 1\<bar> \<le> 9007199254740991" "\<bar>E - 100 * L\<bar> \<le> 9007199254740991"
      using p b by (simp_all add: isSafeInteger_iff)
    show ?thesis using 1 2 b(3) by (simp add: isSafeInteger_iff)
  qed
  have first: "isSafeInteger (level (player s)) \<and> 0 \<le> level (player s)
       \<and> isSafeInteger (experience (player s)) \<and> 0 \<le> experience (player s)
       \<and> (case ch_experience c of None \<Rightarrow> True | Some g \<Rightarrow> isSafeInteger g \<and> 0 \<le> g)
       \<and> isSafeInteger (100 * L) \<and> isSafeInteger E \<longrightarrow>
         (100 * L \<le> E \<longrightarrow>
            level (player (updateGameState H now s action narr c)) = L + 1
            \<and> experience (player (updateGameState H now s action narr c)) = E - 100 * L
            \<and> health (player (updateGameState H now s action narr c)) = 100
            \<and> isSafeInteger (level (player (updateGameState H now s action narr c)))
            \<and> isSafeInteger (experience (player (updateGameState H now s action narr c)))
            \<and> 0 \<le> experience (player (updateGameState H now s action narr c)))
         \<and> (E < 100 * L \<longrightarrow> level (player (updateGameState H now s action narr c)) = level (player s)
              \<and> experience (player (updateGameState H now s action narr c)) = E)
         \<and> experience (player s) \<le> E"
    using main [of c] safe grows unfolding E_def [symmetric] by auto
  show ?thesis
    unfolding Let_def L_def [symmetric] E_def [symmetric]
    by (rule conjI [OF first]) (use example in blast)
qed

theorem leveling_once_per_turn_witness:
  "isSafeInteger (level (player veteran)) \<and> 0 \<le> level (player veteran)
   \<and> isSafeInteger (experience (player veteran)) \<and> 0 \<le> experience (player veteran)
   \<and> level (player veteran) = 1 \<and> experience (player veteran) = 95
   \<and> isSafeInteger 10 \<and> isSafeInteger (100 * level (player veteran))
   \<and> isSafeInteger 105
   \<and> experience (player (apply_changes decimal_host (no_changes\<lparr>ch_experience := Some 10\<rparr>)
        (record_action ''2024-01-01T00:05:00.000Z'' ''open the chest'' ''You learn something.''
           veteran))) = 105
   \<and> (let p = player (updateGameState decimal_host ''2024-01-01T00:05:00.000Z'' veteran
                 ''open the chest'' ''You learn something.'' (no_changes\<lparr>ch_experience := Some 10\<rparr>))
      in level p = 2 \<and> experience p = 5 \<and> health p = 100
         \<and> isSafeInteger (level p) \<and> isSafeInteger (experience p))"
proof -
  have h: "level (player veteran) = 1 \<and> experience (player veteran) = 95" by code_simp
  have e: "experience (player (apply_changes decimal_host (no_changes\<lparr>ch_experience := Some 10\<rparr>)
        (record_action ''2024-01-01T00:05:00.000Z'' ''open the chest'' ''You learn something.''
           veteran))) = 105"
    by (simp add: experience_only record_action_def push_history_def h)
  have c: "ch_experience (no_changes\<lparr>ch_experience := Some 10\<rparr>) = Some 10" by simp
  have s: "isSafeInteger 1" "isSafeInteger 95" "isSafeInteger 10" "isSafeInteger 100"
    "isSafeInteger 105" "isSafeInteger 2" "isSafeInteger 5"
    by (simp_all add: isSafeInteger_def)
  note 1 = leveling_once_per_turn [THEN conjunct1, unfolded Let_def, rule_format,
      where H = decimal_host and now = "''2024-01-01T00:05:00.000Z''" and s = veteran
        and action = "''open the chest''" and narr = "''You learn something.''"
        and c = "no_changes\<lparr>ch_experience := Some 10\<rparr>"]
  show ?thesis
    using 1 unfolding Let_def e c by (simp add: h s)
qed

text \<open>C2 as stated fails: an award of 500 at level 1 gives one level, and the experience
  left still reaches the next threshold.\<close>

theorem leveling_not_repeated_counterexample:
  "level (player new_game) = 1 \<and> experience (player new_game) = 0
   \<and> level (player after_dragon) = 2 \<and> experience (player after_dragon) = 400
   \<and> 100 * level (player after_dragon) \<le> experience (player after_dragon)"
  by code_simp

subsection \<open>The empty change set\<close>

lemma validate_empty: "validateStateChanges H (JObj []) s = Inr no_changes"
  by (simp add: validateStateChanges_def validate_health_def validate_addItems_def
      validate_removeItems_def validate_newLocation_def validate_addQuests_def
      validate_npcRelationships_def validate_experience_def validate_statusEffects_def
      thenE_def no_changes_def)

lemma apply_no_changes: "apply_changes H no_changes t = t"
  by (simp add: apply_changes_def no_changes_def apply_health_def apply_defs
      apply_newLocation_def apply_experience_def)





lemma tick_effects_eq:
  "tick_effects x = x\<lparr>player := (player x)\<lparr>statusEffects := ticked (statusEffects (player x))\<rparr>\<rparr>"
  by (simp add: tick_effects_def ticked_def)


lemma advance_time_quiet:
  "js_rem (timeElapsed x + 1) 24 \<noteq> 0 \<Longrightarrow> advance_time H x = x\<lparr>timeElapsed := timeElapsed x + 1\<rparr>"
  by (simp add: advance_time_def Let_def)

lemma level_up_quiet:
  "experience (player x) < 100 * (if level (player x) = 0 then 1 else level (player x))
     \<Longrightarrow> level_up H x = x"
  using level_up_once [of x H] by blast




lemma js_rem_1_24: "js_rem 1 24 = 1"
  by code_simp




subsection \<open>The history log\<close>

lemma prefix_history_apply_changes:
  "prefix (gameHistory s) (gameHistory (apply_changes H c s))"
proof -
  let ?P = "\<lambda>h t. prefix h (gameHistory t)"
  have 1: "?P h t \<Longrightarrow> ?P h (apply_health x t)" for h x t
    by (simp add: apply_health_def push_history_def Let_def split: option.splits)
  have 2: "?P h t \<Longrightarrow> ?P h (apply_addItems x t)" for h x t
    by (cases x) (simp_all add: apply_defs item_defs fold_invariant [where P = "?P h"])
  have 3: "?P h t \<Longrightarrow> ?P h (apply_removeItems x t)" for h x t
    by (cases x) (simp_all add: apply_defs item_defs fold_invariant [where P = "?P h"])
  have 4: "?P h t \<Longrightarrow> ?P h (apply_newLocation x t)" for h x t
    by (simp add: apply_newLocation_def push_history_def Let_def split: option.splits)
  have 5: "?P h t \<Longrightarrow> ?P h (apply_addQuests x t)" for h x t
    by (cases x) (simp_all add: apply_defs item_defs Let_def fold_invariant [where P = "?P h"])
  have 6: "?P h t \<Longrightarrow> ?P h (apply_npcRelationships x t)" for h x t
    by (cases x) (simp_all add: apply_defs fold_invariant [where P = "?P h"] split: prod.splits)
  have 7: "?P h t \<Longrightarrow> ?P h (apply_statusEffects x t)" for h x t
    by (cases x) (simp_all add: apply_defs item_defs fold_invariant [where P = "?P h"])
  have 8: "?P h t \<Longrightarrow> ?P h (apply_experience H x t)" for h x t
    by (simp add: apply_experience_def push_history_def Let_def split: option.splits)
  show ?thesis
    unfolding apply_changes_def by (intro 1 2 3 4 5 6 7 8) simp
qed

lemma prefix_history_tail:
  "prefix (gameHistory t) (gameHistory (level_up H (advance_time H (tick_effects t))))"
proof -
  have 1: "prefix h (gameHistory x) \<Longrightarrow> prefix h (gameHistory (level_up H x))" for h x
    by (simp add: level_up_def push_history_def Let_def)
  have 2: "prefix h (gameHistory x) \<Longrightarrow> prefix h (gameHistory (advance_time H x))" for h x
    by (simp add: advance_time_def push_history_def Let_def)
  have 3: "gameHistory (tick_effects x) = gameHistory x" for x
    by (simp add: tick_effects_def)
  show ?thesis by (intro 1 2) (simp add: 3)
qed

lemma prefix_history_uncapped:
  "prefix (gameHistory s @ [\<lparr>e_type = Action, e_text = a\<rparr>, \<lparr>e_type = Narrative, e_text = n\<rparr>])
     (gameHistory (reduce_uncapped H now s a n c))"
proof -
  let ?r = "record_action now a n s"
  have "gameHistory ?r = gameHistory s @ [\<lparr>e_type = Action, e_text = a\<rparr>, \<lparr>e_type = Narrative, e_text = n\<rparr>]"
    by (simp add: record_action_def push_history_def)
  moreover have "prefix (gameHistory ?r) (gameHistory (apply_changes H c ?r))"
    by (rule prefix_history_apply_changes)
  moreover have "prefix (gameHistory (apply_changes H c ?r)) (gameHistory (reduce_uncapped H now s a n c))"
    unfolding reduce_uncapped_def by (rule prefix_history_tail)
  ultimately show ?thesis by (metis prefix_order.trans)
qed

lemma history_limit:
  "gameHistory (limit_history t) = drop (length (gameHistory t) - 50) (gameHistory t)"
  by (simp add: limit_history_def)

text \<open>
  C7. After a turn the history has at most 50 entries: it is the last 50 entries of the
  history that the turn built, which starts with the previous history, the action and the
  narrative, in their order.
\<close>

theorem history_capped_most_recent:
  "(let full = gameHistory (reduce_uncapped H now s action narr c);
        new = gameHistory (updateGameState H now s action narr c)
    in length new \<le> 50
       \<and> new = drop (length full - 50) full
       \<and> suffix new full
       \<and> prefix (gameHistory s @ [\<lparr>e_type = Action, e_text = action\<rparr>,
                                    \<lparr>e_type = Narrative, e_text = narr\<rparr>]) full)
   \<and> (\<exists>n s'. applyTurn H now s action raw = Inr (n, s') \<and> length (gameHistory s') \<le> 50)"
proof -
  let ?full = "gameHistory (reduce_uncapped H now s action narr c)"
  let ?new = "gameHistory (updateGameState H now s action narr c)"
  have new: "?new = drop (length ?full - 50) ?full"
    by (simp add: updateGameState_def history_limit)
  then have len: "length ?new \<le> 50" by simp
  have suf: "suffix ?new ?full" unfolding new by (rule suffix_drop)
  have cap: "length (gameHistory (updateGameState H' now' t a' n' c')) \<le> 50" for H' now' t a' n' c'
    by (simp add: updateGameState_def history_limit)
  obtain n s' where t: "applyTurn H now s action raw = Inr (n, s')"
    using applyTurn_total by blast
  then have "length (gameHistory s') \<le> 50"
    by (auto simp: applyTurn_def thenE_def cap split: sum.splits)
  with t new len suf prefix_history_uncapped [of s action narr H now c]
  show ?thesis unfolding Let_def by blast
qed

text \<open>A history of 49 entries: the turn adds two, and the oldest one goes.\<close>

theorem history_capped_most_recent_witness:
  "length (gameHistory crowded) = 49
   \<and> gameHistory (updateGameState decimal_host ''2024-01-01T00:05:00.000Z'' crowded ''wait''
        ''Time passes.'' no_changes)
      = drop 1 (gameHistory crowded)
        @ [\<lparr>e_type = Action, e_text = ''wait''\<rparr>, \<lparr>e_type = Narrative, e_text = ''Time passes.''\<rparr>]
   \<and> length (gameHistory (updateGameState decimal_host ''2024-01-01T00:05:00.000Z'' crowded ''wait''
        ''Time passes.'' no_changes)) = 50"
proof -
  let ?full = "gameHistory (reduce_uncapped decimal_host ''2024-01-01T00:05:00.000Z'' crowded ''wait''
        ''Time passes.'' no_changes)"
  let ?new = "gameHistory (updateGameState decimal_host ''2024-01-01T00:05:00.000Z'' crowded ''wait''
        ''Time passes.'' no_changes)"
  have l: "length (gameHistory crowded) = 49" by (simp add: crowded_def)
  have q: "js_rem (timeElapsed crowded + 1) 24 \<noteq> 0
      \<and> experience (player crowded) < 100 * (if level (player crowded) = 0 then 1 else level (player crowded))"
    by (simp add: crowded_def new_game_def initializeGameState_def js_rem_1_24)
  let ?t = "tick_effects (record_action ''2024-01-01T00:05:00.000Z'' ''wait'' ''Time passes.'' crowded)"
  have t: "gameHistory ?t = gameHistory crowded
        @ [\<lparr>e_type = Action, e_text = ''wait''\<rparr>, \<lparr>e_type = Narrative, e_text = ''Time passes.''\<rparr>]
      \<and> timeElapsed ?t = timeElapsed crowded \<and> experience (player ?t) = experience (player crowded)
      \<and> level (player ?t) = level (player crowded)"
    by (simp add: tick_effects_eq record_action_def push_history_def)
  have a: "advance_time decimal_host ?t = ?t\<lparr>timeElapsed := timeElapsed ?t + 1\<rparr>"
    using q t by (intro advance_time_quiet) simp
  have "level_up decimal_host (advance_time decimal_host ?t) = advance_time decimal_host ?t"
    using q t unfolding a by (intro level_up_quiet) (simp split: if_splits)
  then have full: "?full = gameHistory crowded
        @ [\<lparr>e_type = Action, e_text = ''wait''\<rparr>, \<lparr>e_type = Narrative, e_text = ''Time passes.''\<rparr>]"
    by (simp add: reduce_uncapped_def apply_no_changes a t)
  from history_capped_most_recent [of decimal_host "''2024-01-01T00:05:00.000Z''" crowded "''wait''"
      "''Time passes.''" no_changes]
  have new: "?new = drop (length ?full - 50) ?full" and len: "length ?new \<le> 50"
    unfolding Let_def by blast+
  have "?new = drop 1 (gameHistory crowded)
        @ [\<lparr>e_type = Action, e_text = ''wait''\<rparr>, \<lparr>e_type = Narrative, e_text = ''Time passes.''\<rparr>]"
    unfolding new full using l by simp
  moreover from this l have "length ?new = 50" by simp
  ultimately show ?thesis using l by blast
qed

subsection \<open>Malformed state changes\<close>

lemma fix_nothing:
  assumes "no_field_matches t"
  shows "extractAndFixStateChanges H t = JObj []"
  using assms
  by (simp add: no_field_matches_def extractAndFixStateChanges_def fix_number_def fix_list_def
      fix_newLocation_def fix_npcRelationships_def)

lemma parse_nothing:
  assumes "state_changes_match raw = Some t" and "t \<noteq> []"
    and "JSON_parse (remove_trailing_commas (trim t)) = None" and "no_field_matches t"
  shows "parseGameResponse H raw s
     = Inr \<lparr>narrative = sanitizeNarrative (extract_narrative raw), stateChanges = no_changes\<rparr>"
  using assms
  by (simp add: parseGameResponse_def parseGameResponse_try_def decode_changes_def fix_nothing
      validate_empty thenE_def)

lemma malformed_json:
  \<open>JSON_parse (remove_trailing_commas (trim '' {"health": 50, "addItems": [oops}'')) = None\<close>
  by code_simp

lemma malformed_fixed:
  \<open>extractAndFixStateChanges H '' {"health": 50, "addItems": [oops}'' = JObj [(''health'', JNum 50)]\<close>
  by code_simp

lemma validate_health_50:
  "validateStateChanges H (JObj [(''health'', JNum 50)]) s = Inr (no_changes\<lparr>ch_health := Some 50\<rparr>)"
  by (simp add: validateStateChanges_def validate_health_def validate_addItems_def
      validate_removeItems_def validate_newLocation_def validate_addQuests_def
      validate_npcRelationships_def validate_experience_def validate_statusEffects_def
      thenE_def no_changes_def clamp100_def)

lemma malformed_parse:
  \<open>parseGameResponse H
      ''NARRATIVE: You are hurt.\<newline>STATE_CHANGES: {"health": 50, "addItems": [oops}'' s
     = Inr \<lparr>narrative = ''You are hurt.'', stateChanges = no_changes\<lparr>ch_health := Some 50\<rparr>\<rparr>\<close>
proof -
  have 1: \<open>state_changes_match
      ''NARRATIVE: You are hurt.\<newline>STATE_CHANGES: {"health": 50, "addItems": [oops}''
     = Some '' {"health": 50, "addItems": [oops}''\<close>
    by code_simp
  have 2: \<open>sanitizeNarrative (extract_narrative
      ''NARRATIVE: You are hurt.\<newline>STATE_CHANGES: {"health": 50, "addItems": [oops}'')
     = ''You are hurt.''\<close>
    by code_simp
  show ?thesis
    by (simp add: parseGameResponse_def parseGameResponse_try_def decode_changes_def 1 2
        malformed_json malformed_fixed validate_health_50 thenE_def)
qed

lemma null_changes_caught:
  \<open>parseGameResponse_try H ''STATE_CHANGES: null'' s = Inl TypeError
   \<and> parseGameResponse H ''STATE_CHANGES: null'' s
       = Inr \<lparr>narrative = ''The magical forces seem confused. Please try another action.'',
              stateChanges = no_changes\<rparr>\<close>
proof -
  have 1: \<open>state_changes_match ''STATE_CHANGES: null'' = Some '' null''\<close>
    by code_simp
  have 2: \<open>JSON_parse (remove_trailing_commas (trim '' null'')) = Some JNull\<close>
    by code_simp
  have 3: \<open>parseGameResponse_try H ''STATE_CHANGES: null'' s = Inl TypeError\<close>
    by (simp add: parseGameResponse_try_def decode_changes_def 1 2 validateStateChanges_def
        validate_health_def thenE_def)
  then show ?thesis by (simp add: parseGameResponse_def)
qed

text \<open>
  C4. parseGameResponse returns on every reply. On the state changes
  \<^verbatim>\<open>{"health": 50, "addItems": [oops}\<close> the strict decoder fails, the fallback decoder
  recovers the health, and the result has the narrative and a change set with health 50.
  On the state changes \<^verbatim>\<open>null\<close> the validator raises a TypeError, which the
  function catches. When no field pattern matches, the fallback decoder gives the empty object and the result
  is the narrative with the empty change set.
\<close>

theorem parse_never_throws:
  \<open>(\<exists>r. parseGameResponse H raw s = Inr r)
   \<and> JSON_parse (remove_trailing_commas (trim '' {"health": 50, "addItems": [oops}'')) = None
   \<and> extractAndFixStateChanges H '' {"health": 50, "addItems": [oops}''
       = JObj [(''health'', JNum 50)]
   \<and> parseGameResponse H
        ''NARRATIVE: You are hurt.\<newline>STATE_CHANGES: {"health": 50, "addItems": [oops}'' s
       = Inr \<lparr>narrative = ''You are hurt.'', stateChanges = no_changes\<lparr>ch_health := Some 50\<rparr>\<rparr>
   \<and> parseGameResponse_try H ''STATE_CHANGES: null'' s = Inl TypeError
   \<and> parseGameResponse H ''STATE_CHANGES: null'' s
       = Inr \<lparr>narrative = ''The magical forces seem confused. Please try another action.'',
              stateChanges = no_changes\<rparr>
   \<and> (no_field_matches t \<longrightarrow>
         extractAndFixStateChanges H t = JObj []
         \<and> (state_changes_match raw = Some t \<and> t \<noteq> []
              \<and> JSON_parse (remove_trailing_commas (trim t)) = None \<longrightarrow>
             parseGameResponse H raw s
               = Inr \<lparr>narrative = sanitizeNarrative (extract_narrative raw),
                      stateChanges = no_changes\<rparr>))\<close>
  using parseGameResponse_total [of H raw s] malformed_json malformed_fixed [of H]
    malformed_parse [of H s] null_changes_caught [of H s] fix_nothing [of t H]
    parse_nothing [of raw t H s]
  by (simp only: simp_thms) blast

theorem parse_never_throws_witness:
  \<open>no_field_matches '' nothing changed''
   \<and> state_changes_match ''NARRATIVE: Hm.\<newline>STATE_CHANGES: nothing changed''
       = Some '' nothing changed''
   \<and> '' nothing changed'' \<noteq> []
   \<and> JSON_parse (remove_trailing_commas (trim '' nothing changed'')) = None
   \<and> extractAndFixStateChanges decimal_host '' nothing changed'' = JObj []
   \<and> parseGameResponse decimal_host ''NARRATIVE: Hm.\<newline>STATE_CHANGES: nothing changed'' new_game
       = Inr \<lparr>narrative = sanitizeNarrative (extract_narrative
                 ''NARRATIVE: Hm.\<newline>STATE_CHANGES: nothing changed''),
              stateChanges = no_changes\<rparr>\<close>
proof -
  have h1: "no_field_matches '' nothing changed''" by code_simp
  have h2: \<open>state_changes_match ''NARRATIVE: Hm.\<newline>STATE_CHANGES: nothing changed''
       = Some '' nothing changed''\<close> by code_simp
  have h3: "'' nothing changed'' \<noteq> []" by simp
  have h4: "JSON_parse (remove_trailing_commas (trim '' nothing changed'')) = None" by code_simp
  note c = parse_never_throws [of decimal_host
      \<open>''NARRATIVE: Hm.\<newline>STATE_CHANGES: nothing changed''\<close> new_game "'' nothing changed''"]
  from c h1 have a: "extractAndFixStateChanges decimal_host '' nothing changed'' = JObj []"
    by blast
  from c h1 h2 h3 h4 have b: \<open>parseGameResponse decimal_host
       ''NARRATIVE: Hm.\<newline>STATE_CHANGES: nothing changed'' new_game
       = Inr \<lparr>narrative = sanitizeNarrative (extract_narrative
                 ''NARRATIVE: Hm.\<newline>STATE_CHANGES: nothing changed''),
              stateChanges = no_changes\<rparr>\<close>
    by blast
  show ?thesis
    by (rule conjI [OF h1 conjI [OF h2 conjI [OF h3 conjI [OF h4 conjI [OF a b]]]]])
qed

subsection \<open>The repair of trailing commas\<close>

lemma replace_all_skip:
  "replace_all m r p (length xs) (xs @ ys) = replace_all m r (if xs = [] then p else Some (last xs)) 0 ys"
proof (induction xs arbitrary: p)
  case Nil
  then show ?case by simp
next
  case (Cons x xs)
  then show ?case by (cases xs) simp_all
qed

lemma replace_all_prev:
  assumes "\<And>p q s. m p s = m q s"
  shows "replace_all m r p k s = replace_all m r q k s"
proof (induction s arbitrary: p q k)
  case Nil
  then show ?case by simp
next
  case (Cons c cs)
  show ?case
  proof (cases k)
    case 0
    have "m p (c # cs) = m q (c # cs)" by (rule assms)
    then show ?thesis by (simp add: 0 split: option.splits nat.splits)
  next
    case (Suc k')
    then show ?thesis by simp
  qed
qed

lemma trailing_comma_at:
  assumes "list_all is_space ws" and "\<not> is_space cl"
  shows "m_trailing_comma cl p (CHR '','' # ws @ cl # b) = Some (Suc (Suc (length ws)))"
proof -
  from assms have "takeWhile is_space (ws @ cl # b) = ws" "dropWhile is_space (ws @ cl # b) = cl # b"
    by (induction ws) simp_all
  then show ?thesis by (simp add: m_trailing_comma_def)
qed

lemma replace_blind:
  assumes "CHR '','' \<notin> set a" and "list_all is_space ws" and "\<not> is_space cl"
  shows "replace_all (m_trailing_comma cl) [cl] p 0 (a @ CHR '','' # ws @ cl # b)
     = a @ cl # replace_all (m_trailing_comma cl) [cl] q 0 b"
  using assms(1)
proof (induction a arbitrary: p)
  case Nil
  have "replace_all (m_trailing_comma cl) [cl] p 0 (CHR '','' # ws @ cl # b)
      = cl # replace_all (m_trailing_comma cl) [cl] (Some CHR '','') (Suc (length ws)) (ws @ cl # b)"
    by (simp add: trailing_comma_at [OF assms(2,3)])
  also have "replace_all (m_trailing_comma cl) [cl] (Some CHR '','') (Suc (length ws)) (ws @ cl # b)
      = replace_all (m_trailing_comma cl) [cl] (Some CHR '','') (length (ws @ [cl])) ((ws @ [cl]) @ b)"
    by simp
  also have "\<dots> = replace_all (m_trailing_comma cl) [cl] (Some cl) 0 b"
    by (simp only: replace_all_skip) simp
  also have "\<dots> = replace_all (m_trailing_comma cl) [cl] q 0 b"
    by (rule replace_all_prev) (simp add: m_trailing_comma_def)
  finally show ?case by simp
next
  case (Cons c a)
  then have "c \<noteq> CHR '',''" by auto
  then have "m_trailing_comma cl p (c # a @ CHR '','' # ws @ cl # b) = None"
    by (simp add: m_trailing_comma_def)
  with Cons show ?case by simp
qed

lemma altered_decode:
  \<open>decode_changes H ''STATE_CHANGES: {"addItems": ["scroll marked {alpha, }"]}''
     = JObj [(''addItems'', JArr [JStr ''scroll marked {alpha}''])]\<close>
proof -
  have 1: \<open>state_changes_match ''STATE_CHANGES: {"addItems": ["scroll marked {alpha, }"]}''
     = Some '' {"addItems": ["scroll marked {alpha, }"]}''\<close>
    by code_simp
  have 2: \<open>JSON_parse (remove_trailing_commas (trim '' {"addItems": ["scroll marked {alpha, }"]}''))
     = Some (JObj [(''addItems'', JArr [JStr ''scroll marked {alpha}''])])\<close>
    by code_simp
  show ?thesis by (simp add: decode_changes_def 1 2)
qed

lemma direct_decode:
  \<open>JSON_parse (trim '' {"addItems": ["scroll marked {alpha, }"]}'')
     = Some (JObj [(''addItems'', JArr [JStr ''scroll marked {alpha, }''])])\<close>
  by code_simp

lemma altered_validated:
  \<open>validateStateChanges H (JObj [(''addItems'', JArr [JStr ''scroll marked {alpha}''])]) s
     = Inr (no_changes\<lparr>ch_addItems := Some [''scroll marked {alpha}'']\<rparr>)\<close>
proof -
  have \<open>string_items [JStr ''scroll marked {alpha}''] = [''scroll marked {alpha}'']\<close>
    by code_simp
  then show ?thesis
    by (simp add: validateStateChanges_def validate_health_def validate_addItems_def
      validate_removeItems_def validate_newLocation_def validate_addQuests_def
      validate_npcRelationships_def validate_experience_def validate_statusEffects_def
      thenE_def no_changes_def)
qed

lemma trailing_comma_in_iff:
  assumes "\<not> is_space cl"
  shows "trailing_comma_in cl s
     \<longleftrightarrow> (\<exists>a ws b. list_all is_space ws \<and> s = a @ CHR '','' # ws @ cl # b)"
proof (induction s)
  case Nil
  then show ?case by simp
next
  case (Cons c cs)
  show ?case
  proof
    assume "trailing_comma_in cl (c # cs)"
    then consider (here) "c = CHR '',''" "prefix [cl] (dropWhile is_space cs)"
      | (later) "trailing_comma_in cl cs" by auto
    then show "\<exists>a ws b. list_all is_space ws \<and> c # cs = a @ CHR '','' # ws @ cl # b"
    proof cases
      case here
      from here(2) obtain b where b: "dropWhile is_space cs = cl # b"
        by (auto simp: prefix_def)
      have "cs = takeWhile is_space cs @ dropWhile is_space cs" by simp
      then have "c # cs = [] @ CHR '','' # takeWhile is_space cs @ cl # b"
        using here(1) b by simp
      moreover have "list_all is_space (takeWhile is_space cs)"
        by (simp add: list_all_iff) (meson set_takeWhileD)
      ultimately show ?thesis by blast
    next
      case later
      with Cons.IH obtain a ws b where "list_all is_space ws" "cs = a @ CHR '','' # ws @ cl # b"
        by blast
      then have "list_all is_space ws \<and> c # cs = (c # a) @ CHR '','' # ws @ cl # b" by simp
      then show ?thesis by blast
    qed
  next
    assume "\<exists>a ws b. list_all is_space ws \<and> c # cs = a @ CHR '','' # ws @ cl # b"
    then obtain a ws b where ws: "list_all is_space ws" and eq: "c # cs = a @ CHR '','' # ws @ cl # b"
      by blast
    show "trailing_comma_in cl (c # cs)"
    proof (cases a)
      case Nil
      with eq have c: "c = CHR '',''" and cs: "cs = ws @ cl # b" by simp_all
      from ws assms have "dropWhile is_space (ws @ cl # b) = cl # b"
        by (induction ws) simp_all
      with c cs show ?thesis by simp
    next
      case (Cons d a')
      with eq have "cs = a' @ CHR '','' # ws @ cl # b" by simp
      with ws Cons.IH have "trailing_comma_in cl cs" by blast
      then show ?thesis by simp
    qed
  qed
qed

lemma trailing_comma_prev:
  "replace_all (m_trailing_comma cl) r p k s = replace_all (m_trailing_comma cl) r q k s"
  by (rule replace_all_prev) (simp add: m_trailing_comma_def)

lemma trailing_comma_none:
  "m_trailing_comma cl p (c # cs) = None
     \<longleftrightarrow> \<not> (c = CHR '','' \<and> prefix [cl] (dropWhile is_space cs))"
  by (simp add: m_trailing_comma_def)

lemma trailing_comma_absent:
  assumes "\<not> trailing_comma_in cl s"
  shows "replace_all (m_trailing_comma cl) r p 0 s = s"
  using assms
proof (induction s arbitrary: p)
  case Nil
  then show ?case by simp
next
  case (Cons c cs)
  then have "m_trailing_comma cl p (c # cs) = None" by (simp add: trailing_comma_none)
  with Cons show ?case by simp
qed

lemma trailing_comma_local:
  assumes "\<not> is_space c" and "c \<noteq> cl"
  shows "m_trailing_comma cl p (d # x @ c # y) = m_trailing_comma cl p (d # x)"
proof (cases "dropWhile is_space x = []")
  case True
  then have all: "\<forall>z\<in>set x. is_space z" by (simp add: dropWhile_eq_Nil_conv)
  then have "dropWhile is_space (x @ c # y) = c # y" using assms(1) by (simp add: dropWhile_append)
  then show ?thesis
    using True assms(2) by (simp add: m_trailing_comma_def del: dropWhile_eq_Nil_conv)
next
  case False
  then obtain z where z: "z \<in> set x" "\<not> is_space z" by (auto simp: dropWhile_eq_Nil_conv)
  then have "dropWhile is_space (x @ c # y) = dropWhile is_space x @ c # y"
    and "takeWhile is_space (x @ c # y) = takeWhile is_space x"
    by (simp_all add: dropWhile_append1 takeWhile_append1)
  moreover from False obtain e es where "dropWhile is_space x = e # es" by (cases "dropWhile is_space x") auto
  ultimately show ?thesis by (simp add: m_trailing_comma_def)
qed

lemma trailing_comma_length:
  assumes "m_trailing_comma cl p (d # x) = Some n"
  shows "\<exists>n'. n = Suc n' \<and> n' \<le> length x"
proof -
  from assms have pre: "prefix [cl] (dropWhile is_space x)"
    and n: "n = length (takeWhile is_space x) + 2"
    by (auto simp: m_trailing_comma_def split: if_splits)
  have "dropWhile is_space x \<noteq> []"
  proof
    assume "dropWhile is_space x = []"
    with pre show False by simp
  qed
  then have "0 < length (dropWhile is_space x)" by simp
  moreover have "length x = length (takeWhile is_space x) + length (dropWhile is_space x)"
    by (metis length_append takeWhile_dropWhile_id)
  ultimately have "length (takeWhile is_space x) < length x" by linarith
  with n show ?thesis by simp
qed

lemma trailing_comma_split:
  assumes "\<not> is_space c" and "c \<noteq> cl"
  shows "k \<le> length x \<Longrightarrow>
     replace_all (m_trailing_comma cl) r p k (x @ c # y)
       = replace_all (m_trailing_comma cl) r p k x @ replace_all (m_trailing_comma cl) r q 0 (c # y)"
proof (induction x arbitrary: p k)
  case Nil
  then have "k = 0" by simp
  then show ?case using trailing_comma_prev [of cl r p 0 "c # y" q] by simp
next
  case (Cons d x)
  show ?case
  proof (cases k)
    case (Suc k')
    with Cons.prems have "k' \<le> length x" by simp
    from Cons.IH [OF this] show ?thesis by (simp add: Suc)
  next
    case 0
    note loc = trailing_comma_local [OF assms, of p d x y]
    show ?thesis
    proof (cases "m_trailing_comma cl p (d # x)")
      case None
      with loc Cons.IH [of 0 "Some d"] show ?thesis by (simp add: 0)
    next
      case (Some n)
      then obtain n' where n: "n = Suc n'" "n' \<le> length x"
        using trailing_comma_length by blast
      from Cons.IH [OF n(2), of "Some d"] Some loc show ?thesis by (simp add: 0 n)
    qed
  qed
qed

lemma trailing_comma_rewritten:
  assumes "list_all is_space ws" and "\<not> is_space cl" and "cl \<noteq> CHR '',''"
  shows "replace_all (m_trailing_comma cl) [cl] p 0 (a @ CHR '','' # ws @ cl # b)
     = replace_all (m_trailing_comma cl) [cl] p 0 a @ cl # replace_all (m_trailing_comma cl) [cl] q 0 b"
proof -
  have "\<not> is_space CHR '',''" by (simp add: is_space_def)
  then have "replace_all (m_trailing_comma cl) [cl] p 0 (a @ CHR '','' # ws @ cl # b)
      = replace_all (m_trailing_comma cl) [cl] p 0 a
        @ replace_all (m_trailing_comma cl) [cl] q 0 (CHR '','' # ws @ cl # b)"
    using assms(3) by (intro trailing_comma_split) simp_all
  also have "replace_all (m_trailing_comma cl) [cl] q 0 (CHR '','' # ws @ cl # b)
      = cl # replace_all (m_trailing_comma cl) [cl] q 0 b"
    using replace_blind [of "[]" ws cl q b q] assms(1,2) by simp
  finally show ?thesis .
qed

lemma trailing_comma_other:
  assumes "c \<noteq> CHR '',''"
  shows "replace_all (m_trailing_comma cl) r p 0 (c # y)
     = c # replace_all (m_trailing_comma cl) r q 0 y"
proof -
  have "m_trailing_comma cl p (c # y) = None" using assms by (simp add: m_trailing_comma_def)
  then show ?thesis using trailing_comma_prev [of cl r "Some c" 0 y q] by simp
qed

lemma remove_trailing_commas_brace:
  assumes "list_all is_space ws"
  shows "remove_trailing_commas (a @ CHR '','' # ws @ CHR ''}'' # b)
     = remove_trailing_commas a @ CHR ''}'' # remove_trailing_commas b"
proof -
  let ?brace = "replace_all (m_trailing_comma CHR ''}'') ''}'' None 0"
  let ?bracket = "replace_all (m_trailing_comma CHR '']'') '']'' None 0"
  have s: "\<not> is_space CHR ''}''" by (simp add: is_space_def)
  have "?brace (a @ CHR '','' # ws @ CHR ''}'' # b) = ?brace a @ CHR ''}'' # ?brace b"
    using assms s by (intro trailing_comma_rewritten) simp_all
  moreover have "?bracket (?brace a @ CHR ''}'' # ?brace b)
      = ?bracket (?brace a) @ ?bracket (CHR ''}'' # ?brace b)"
    using s by (intro trailing_comma_split) simp_all
  moreover have "?bracket (CHR ''}'' # ?brace b) = CHR ''}'' # ?bracket (?brace b)"
    by (intro trailing_comma_other) simp
  ultimately show ?thesis by (simp add: remove_trailing_commas_def)
qed

lemma remove_trailing_commas_bracket:
  assumes "list_all is_space ws"
  shows "remove_trailing_commas (a @ CHR '','' # ws @ CHR '']'' # b)
     = remove_trailing_commas a @ CHR '']'' # remove_trailing_commas b"
proof -
  let ?brace = "replace_all (m_trailing_comma CHR ''}'') ''}'' None 0"
  let ?bracket = "replace_all (m_trailing_comma CHR '']'') '']'' None 0"
  have s: "\<not> is_space CHR '']''" "\<not> is_space CHR '',''" by (simp_all add: is_space_def)
  have ws: "dropWhile is_space ws = []" using assms by (simp add: list_all_iff)
  have "trailing_comma_in CHR ''}'' ws \<Longrightarrow> False" using assms
  proof (induction ws)
    case Nil
    then show ?case by simp
  next
    case (Cons w ws)
    then have "w \<noteq> CHR '',''" using s(2) by auto
    with Cons show ?case by simp
  qed
  then have "\<not> trailing_comma_in CHR ''}'' (CHR '','' # ws)"
    using ws by (auto simp del: dropWhile_eq_Nil_conv)
  then have 1: "?brace (CHR '','' # ws) = CHR '','' # ws"
    by (rule trailing_comma_absent)
  have 2: "?brace ((a @ CHR '','' # ws) @ CHR '']'' # b)
      = ?brace (a @ CHR '','' # ws) @ ?brace (CHR '']'' # b)"
    using s(1) by (intro trailing_comma_split) simp_all
  have 3: "?brace (a @ CHR '','' # ws) = ?brace a @ ?brace (CHR '','' # ws)"
    using s(2) by (intro trailing_comma_split) simp_all
  have 4: "?brace (CHR '']'' # b) = CHR '']'' # ?brace b"
    by (intro trailing_comma_other) simp
  have "a @ CHR '','' # ws @ CHR '']'' # b = (a @ CHR '','' # ws) @ CHR '']'' # b"
    by simp
  then have "?brace (a @ CHR '','' # ws @ CHR '']'' # b)
      = (?brace a @ CHR '','' # ws) @ CHR '']'' # ?brace b"
    by (simp only: 2 3 4 1)
  then have "?brace (a @ CHR '','' # ws @ CHR '']'' # b)
      = ?brace a @ CHR '','' # ws @ CHR '']'' # ?brace b"
    by (simp only: append_assoc append_Cons)
  moreover have "?bracket (?brace a @ CHR '','' # ws @ CHR '']'' # ?brace b)
      = ?bracket (?brace a) @ CHR '']'' # ?bracket (?brace b)"
    using assms s(1) by (intro trailing_comma_rewritten) simp_all
  ultimately show ?thesis by (simp add: remove_trailing_commas_def)
qed

lemma remove_trailing_commas_absent:
  assumes "\<not> trailing_comma_in CHR ''}'' t" and "\<not> trailing_comma_in CHR '']'' t"
  shows "remove_trailing_commas t = t"
  using assms by (simp add: remove_trailing_commas_def trailing_comma_absent)

lemma decode_repaired:
  assumes "state_changes_match raw = Some g" and "g \<noteq> []"
    and "JSON_parse (remove_trailing_commas (trim g)) = Some v"
  shows "decode_changes H raw = v"
  using assms by (simp add: decode_changes_def)

lemma second_decode:
  \<open>decode_changes H ''STATE_CHANGES: {"health": 50, "addItems": ["rope", "list [a, b, ]"]}''
     = JObj [(''health'', JNum 50), (''addItems'', JArr [JStr ''rope'', JStr ''list [a, b]''])]\<close>
proof -
  have 1: \<open>state_changes_match ''STATE_CHANGES: {"health": 50, "addItems": ["rope", "list [a, b, ]"]}''
     = Some '' {"health": 50, "addItems": ["rope", "list [a, b, ]"]}''\<close>
    by code_simp
  have 2: \<open>JSON_parse (remove_trailing_commas (trim '' {"health": 50, "addItems": ["rope", "list [a, b, ]"]}''))
     = Some (JObj [(''health'', JNum 50), (''addItems'', JArr [JStr ''rope'', JStr ''list [a, b]''])])\<close>
    by code_simp
  show ?thesis by (simp add: decode_changes_def 1 2)
qed

lemma second_direct:
  \<open>JSON_parse (trim '' {"health": 50, "addItems": ["rope", "list [a, b, ]"]}'')
     = Some (JObj [(''health'', JNum 50), (''addItems'', JArr [JStr ''rope'', JStr ''list [a, b, ]''])])\<close>
  by code_simp

text \<open>
  C9. The repair is textual and reaches every occurrence. Wherever a comma, white space and
  \<^verbatim>\<open>}\<close> stand in the text, whatever precedes and follows them, the repaired text
  is the repaired text before them, the closing character, and the repaired text after them;
  the same holds for \<^verbatim>\<open>]\<close>; a text without an occurrence is left as it is. The
  decoder parses the repaired text, so an occurrence inside a string literal is rewritten as
  well: the valid JSON texts \<^verbatim>\<open>{"addItems": ["scroll marked {alpha, }"]}\<close> and
  \<^verbatim>\<open>{"health": 50, "addItems": ["rope", "list [a, b, ]"]}\<close> are decoded with the
  items \<^verbatim>\<open>scroll marked {alpha}\<close> and \<^verbatim>\<open>list [a, b]\<close>, not with the
  items that JSON.parse reads from the texts themselves.
\<close>

theorem trailing_comma_repair_blind:
  \<open>(list_all is_space ws \<longrightarrow>
       remove_trailing_commas (a @ CHR '','' # ws @ CHR ''}'' # b)
         = remove_trailing_commas a @ CHR ''}'' # remove_trailing_commas b
       \<and> remove_trailing_commas (a @ CHR '','' # ws @ CHR '']'' # b)
         = remove_trailing_commas a @ CHR '']'' # remove_trailing_commas b)
   \<and> (\<not> trailing_comma_in CHR ''}'' t \<and> \<not> trailing_comma_in CHR '']'' t \<longrightarrow>
       remove_trailing_commas t = t)
   \<and> (trailing_comma_in CHR ''}'' t
        \<longleftrightarrow> (\<exists>x sp y. list_all is_space sp \<and> t = x @ CHR '','' # sp @ CHR ''}'' # y))
   \<and> (trailing_comma_in CHR '']'' t
        \<longleftrightarrow> (\<exists>x sp y. list_all is_space sp \<and> t = x @ CHR '','' # sp @ CHR '']'' # y))
   \<and> (state_changes_match raw = Some g \<and> g \<noteq> []
        \<and> JSON_parse (remove_trailing_commas (trim g)) = Some v \<longrightarrow> decode_changes H raw = v)
   \<and> JSON_parse (trim '' {"addItems": ["scroll marked {alpha, }"]}'')
       = Some (JObj [(''addItems'', JArr [JStr ''scroll marked {alpha, }''])])
   \<and> decode_changes H ''STATE_CHANGES: {"addItems": ["scroll marked {alpha, }"]}''
       = JObj [(''addItems'', JArr [JStr ''scroll marked {alpha}''])]
   \<and> JSON_parse (trim '' {"addItems": ["scroll marked {alpha, }"]}'')
       \<noteq> Some (decode_changes H ''STATE_CHANGES: {"addItems": ["scroll marked {alpha, }"]}'')
   \<and> parseGameResponse H ''STATE_CHANGES: {"addItems": ["scroll marked {alpha, }"]}'' s
       = Inr \<lparr>narrative = ''{"addItems": ["scroll marked {alpha, }"]}'',
              stateChanges = no_changes\<lparr>ch_addItems := Some [''scroll marked {alpha}'']\<rparr>\<rparr>
   \<and> JSON_parse (trim '' {"health": 50, "addItems": ["rope", "list [a, b, ]"]}'')
       = Some (JObj [(''health'', JNum 50),
                     (''addItems'', JArr [JStr ''rope'', JStr ''list [a, b, ]''])])
   \<and> decode_changes H ''STATE_CHANGES: {"health": 50, "addItems": ["rope", "list [a, b, ]"]}''
       = JObj [(''health'', JNum 50), (''addItems'', JArr [JStr ''rope'', JStr ''list [a, b]''])]\<close>
proof -
  have n: \<open>sanitizeNarrative (extract_narrative
      ''STATE_CHANGES: {"addItems": ["scroll marked {alpha, }"]}'')
      = ''{"addItems": ["scroll marked {alpha, }"]}''\<close>
    by code_simp
  have p: \<open>parseGameResponse H ''STATE_CHANGES: {"addItems": ["scroll marked {alpha, }"]}'' s
       = Inr \<lparr>narrative = ''{"addItems": ["scroll marked {alpha, }"]}'',
              stateChanges = no_changes\<lparr>ch_addItems := Some [''scroll marked {alpha}'']\<rparr>\<rparr>\<close>
    by (simp add: parseGameResponse_def parseGameResponse_try_def altered_decode
        altered_validated thenE_def n)
  have d: \<open>JSON_parse (trim '' {"addItems": ["scroll marked {alpha, }"]}'')
       \<noteq> Some (decode_changes H ''STATE_CHANGES: {"addItems": ["scroll marked {alpha, }"]}'')\<close>
    by (simp add: direct_decode altered_decode)
  have i1: "trailing_comma_in CHR ''}'' t
        \<longleftrightarrow> (\<exists>x sp y. list_all is_space sp \<and> t = x @ CHR '','' # sp @ CHR ''}'' # y)"
    by (rule trailing_comma_in_iff) (simp add: is_space_def)
  have i2: "trailing_comma_in CHR '']'' t
        \<longleftrightarrow> (\<exists>x sp y. list_all is_space sp \<and> t = x @ CHR '','' # sp @ CHR '']'' # y)"
    by (rule trailing_comma_in_iff) (simp add: is_space_def)
  show ?thesis
    apply (intro conjI impI)
    subgoal by (rule remove_trailing_commas_brace)
    subgoal by (rule remove_trailing_commas_bracket)
    subgoal by (rule remove_trailing_commas_absent) simp_all
    subgoal by (rule i1)
    subgoal by (rule i2)
    subgoal by (elim conjE) (rule decode_repaired)
    subgoal by (rule direct_decode)
    subgoal by (rule altered_decode)
    subgoal by (rule d)
    subgoal by (rule p)
    subgoal by (rule second_direct)
    subgoal by (rule second_decode)
    done
qed

theorem trailing_comma_repair_blind_witness:
  \<open>list_all is_space '' ''
   \<and> remove_trailing_commas ''{"health": 50, "addItems": ["a, }", "b, ]", ], }''
       = ''{"health": 50, "addItems": ["a}", "b]"]}''
   \<and> remove_trailing_commas (''{"health": 50, "note": "{x'' @ CHR '','' # '' '' @ CHR ''}'' # ''"}'')
       = remove_trailing_commas ''{"health": 50, "note": "{x'' @ CHR ''}'' # remove_trailing_commas ''"}''
   \<and> remove_trailing_commas (''{"health": 50, "note": "[x'' @ CHR '','' # '' '' @ CHR '']'' # ''"}'')
       = remove_trailing_commas ''{"health": 50, "note": "[x'' @ CHR '']'' # remove_trailing_commas ''"}''
   \<and> \<not> trailing_comma_in CHR ''}'' ''{"health": 50, "addItems": ["rope"]}''
   \<and> \<not> trailing_comma_in CHR '']'' ''{"health": 50, "addItems": ["rope"]}''
   \<and> remove_trailing_commas ''{"health": 50, "addItems": ["rope"]}''
       = ''{"health": 50, "addItems": ["rope"]}''
   \<and> state_changes_match ''STATE_CHANGES: {"health": 50, "addItems": ["rope", ], }''
       = Some '' {"health": 50, "addItems": ["rope", ], }''
   \<and> JSON_parse (remove_trailing_commas (trim '' {"health": 50, "addItems": ["rope", ], }''))
       = Some (JObj [(''health'', JNum 50), (''addItems'', JArr [JStr ''rope''])])
   \<and> decode_changes decimal_host ''STATE_CHANGES: {"health": 50, "addItems": ["rope", ], }''
       = JObj [(''health'', JNum 50), (''addItems'', JArr [JStr ''rope''])]\<close>
proof -
  have w: "list_all is_space '' ''" by code_simp
  have r: \<open>remove_trailing_commas ''{"health": 50, "addItems": ["a, }", "b, ]", ], }''
       = ''{"health": 50, "addItems": ["a}", "b]"]}''\<close>
    by code_simp
  have n: \<open>\<not> trailing_comma_in CHR ''}'' ''{"health": 50, "addItems": ["rope"]}''
     \<and> \<not> trailing_comma_in CHR '']'' ''{"health": 50, "addItems": ["rope"]}''\<close>
    by code_simp
  have m: \<open>state_changes_match ''STATE_CHANGES: {"health": 50, "addItems": ["rope", ], }''
       = Some '' {"health": 50, "addItems": ["rope", ], }''\<close>
    by code_simp
  have j: \<open>JSON_parse (remove_trailing_commas (trim '' {"health": 50, "addItems": ["rope", ], }''))
       = Some (JObj [(''health'', JNum 50), (''addItems'', JArr [JStr ''rope''])])\<close>
    by code_simp
  have g: \<open>state_changes_match ''STATE_CHANGES: {"health": 50, "addItems": ["rope", ], }''
       = Some '' {"health": 50, "addItems": ["rope", ], }''
     \<and> '' {"health": 50, "addItems": ["rope", ], }'' \<noteq> []
     \<and> JSON_parse (remove_trailing_commas (trim '' {"health": 50, "addItems": ["rope", ], }''))
       = Some (JObj [(''health'', JNum 50), (''addItems'', JArr [JStr ''rope''])])\<close>
    using m j by simp
  note t = trailing_comma_repair_blind
  note 1 = t [where a = \<open>''{"health": 50, "note": "{x''\<close> and b = \<open>''"}''\<close>,
      THEN conjunct1, rule_format, OF w, THEN conjunct1]
  note 2 = t [where a = \<open>''{"health": 50, "note": "[x''\<close> and b = \<open>''"}''\<close>,
      THEN conjunct1, rule_format, OF w, THEN conjunct2]
  note 3 = t [THEN conjunct2, THEN conjunct1, rule_format, OF n]
  note 4 = t [THEN conjunct2, THEN conjunct2, THEN conjunct2, THEN conjunct2, THEN conjunct1,
      rule_format, OF g, where H = decimal_host]
  show ?thesis
    by (rule conjI [OF w conjI [OF r conjI [OF 1 conjI [OF 2 conjI [OF n [THEN conjunct1]
         conjI [OF n [THEN conjunct2] conjI [OF 3 conjI [OF m conjI [OF j 4]]]]]]]]])
qed

subsection \<open>The narrative when the captured text is empty\<close>





subsection \<open>The fallback world\<close>

lemma unparseable_world:
  assumes "json_span response = None \<or> (\<exists>t. json_span response = Some t \<and> JSON_parse t = None)"
  shows "parseWorldGeneration vwd response = getFallbackWorld"
  using assms by (auto simp: parseWorldGeneration_def)

lemma generateWorld_unparseable:
  assumes "json_span response = None \<or> (\<exists>t. json_span response = Some t \<and> JSON_parse t = None)"
  shows "generateWorld (\<lambda>worldType. Inr response) vwd u1 u2 u3 wt
     = enhanceWorldData u1 u2 u3 getFallbackWorld"
  using unparseable_world [OF assms] by (simp add: generateWorld_def)

lemma fantasy_tables:
  "generateNearbyLocations getFallbackWorld
     = [mk_location ''village_square'' ''Village Square''
          ''The bustling center of the nearby settlement, filled with merchants and townsfolk.'',
        mk_location ''ancient_ruins'' ''Ancient Ruins''
          ''Crumbling stone structures covered in vines and moss, hinting at a civilization long gone.'',
        mk_location ''dark_forest'' ''Dark Forest''
          ''A dense forest where sunlight barely penetrates the thick canopy of leaves overhead.'']
   \<and> generateBasicNPCs getFallbackWorld
     = [mk_npc ''village_elder'' ''Elder Thorne''
          ''A wise village elder with knowledge of the land.'' 50,
        mk_npc ''mysterious_stranger'' ''The Hooded Figure''
          ''A traveler who speaks little but seems to know much about recent events.'' 30,
        mk_npc ''tavern_keeper'' ''Innkeeper Mira''
          ''The cheerful proprietor of the local tavern, a hub of gossip and information.'' 60]"
proof -
  have "toLowerCase (wd_type getFallbackWorld) = ''fantasy''" by code_simp
  then show ?thesis
    by (simp add: generateNearbyLocations_def generateBasicNPCs_def table_or_fantasy_def
        locationSets_def npcSets_def)
qed

text \<open>
  C5. On a reply without a JSON object, asked for a sci-fi world, generateWorld returns the
  fallback world after enhanceWorldData: name and type are those of the fallback world, the
  nearby locations are the fantasy table and not the ones written in the fallback world.
  When the model call itself fails, the fallback world is returned as it is written.
\<close>

theorem fallback_world_enhanced:
  "(let w = generateWorld (\<lambda>worldType. Inr ''I cannot build a world today.'') vwd u1 u2 u3
              (Some ''sci-fi'')
    in w = enhanceWorldData u1 u2 u3 getFallbackWorld
       \<and> wd_name w = ''Eldoria'' \<and> wd_type w = ''fantasy''
       \<and> wd_nearbyLocations w = Some
           [mk_location ''village_square'' ''Village Square''
              ''The bustling center of the nearby settlement, filled with merchants and townsfolk.'',
            mk_location ''ancient_ruins'' ''Ancient Ruins''
              ''Crumbling stone structures covered in vines and moss, hinting at a civilization long gone.'',
            mk_location ''dark_forest'' ''Dark Forest''
              ''A dense forest where sunlight barely penetrates the thick canopy of leaves overhead.'']
       \<and> wd_nearbyLocations getFallbackWorld = Some
           [mk_location ''village_clearing'' ''Village Clearing''
              ''A small settlement at the edge of the forest where traders and travelers rest.'',
            mk_location ''ancient_ruins'' ''Ancient Ruins''
              ''Crumbling stone structures covered in vines and moss, hinting at a civilization long gone.'',
            mk_location ''mystic_grove'' ''Mystic Grove''
              ''A peaceful clearing where magical flora grows and strange lights float in the air.'']
       \<and> w \<noteq> getFallbackWorld)
   \<and> generateWorld (\<lambda>worldType. Inl TypeError) vwd u1 u2 u3 (Some ''sci-fi'') = getFallbackWorld"
proof -
  let ?w = "generateWorld (\<lambda>worldType. Inr ''I cannot build a world today.'') vwd u1 u2 u3
              (Some ''sci-fi'')"
  have "json_span ''I cannot build a world today.'' = None" by code_simp
  then have "parseWorldGeneration vwd ''I cannot build a world today.'' = getFallbackWorld"
    by (simp add: unparseable_world)
  then have w: "?w = enhanceWorldData u1 u2 u3 getFallbackWorld"
    by (simp add: generateWorld_def)
  have n: "wd_name ?w = ''Eldoria'' \<and> wd_type ?w = ''fantasy''"
    by (simp add: w enhanceWorldData_def getFallbackWorld_def)
  have l: "wd_nearbyLocations ?w = Some (generateNearbyLocations getFallbackWorld)"
    by (simp add: w enhanceWorldData_def)
  have f: "wd_nearbyLocations getFallbackWorld = Some
           [mk_location ''village_clearing'' ''Village Clearing''
              ''A small settlement at the edge of the forest where traders and travelers rest.'',
            mk_location ''ancient_ruins'' ''Ancient Ruins''
              ''Crumbling stone structures covered in vines and moss, hinting at a civilization long gone.'',
            mk_location ''mystic_grove'' ''Mystic Grove''
              ''A peaceful clearing where magical flora grows and strange lights float in the air.'']"
    by (simp add: getFallbackWorld_def)
  have "wd_nearbyLocations ?w \<noteq> wd_nearbyLocations getFallbackWorld"
    unfolding l f by (simp add: fantasy_tables mk_location_def)
  then have d: "?w \<noteq> getFallbackWorld" by auto
  have c: "generateWorld (\<lambda>worldType. Inl TypeError) vwd u1 u2 u3 (Some ''sci-fi'') = getFallbackWorld"
    by (simp add: generateWorld_def)
  from w n l f d c fantasy_tables show ?thesis
    unfolding Let_def by (simp only: simp_thms)
qed

end
